theory Spec2Isabelle
  imports Main "HOL-Library.Sublist"
begin

section \<open>Errors and formatting\<close>

text \<open>
  A Go \<^verbatim>\<open>error\<close> is an interface value; \<^verbatim>\<open>nil\<close> is success. The model keeps the
  errors that \<^verbatim>\<open>cmd/push/main.go\<close> can see: the ones it builds itself with
  \<^verbatim>\<open>fmt.Errorf\<close> and \<^verbatim>\<open>errors.New\<close> (an error that carries its message), the two
  error kinds of \<^verbatim>\<open>encoding/json\<close>, the syntax error of \<^verbatim>\<open>strconv\<close>, and the lookup
  failure of the repository list.
  A function that returns \<^verbatim>\<open>error\<close> returns \<open>error option\<close>, \<open>None\<close> for \<^verbatim>\<open>nil\<close>.
\<close>

datatype error =
    ErrorString string
  | SyntaxError
  | UnmarshalTypeError
  | NumError string
  | UnknownRepository string

text \<open>The verb \<^verbatim>\<open>%d\<close> of \<^verbatim>\<open>fmt\<close> on an \<^verbatim>\<open>int\<close>: decimal digits, with a minus sign
  when negative.\<close>

definition digit_char :: "nat \<Rightarrow> char" where
  "digit_char d = ''0123456789'' ! d"

fun nat_digits :: "nat \<Rightarrow> string" where
  "nat_digits n =
     (if n < 10 then [digit_char n] else nat_digits (n div 10) @ [digit_char (n mod 10)])"

declare nat_digits.simps [simp del]

definition fmt_d :: "int \<Rightarrow> string" where
  "fmt_d i = (if i < 0 then CHR ''-'' # nat_digits (nat (- i)) else nat_digits (nat i))"

section \<open>The JSON decoder used by the error decoder\<close>

text \<open>
  \<^verbatim>\<open>getArtifactoryError\<close> calls \<^verbatim>\<open>json.Unmarshal(b, &response)\<close> of Go's standard library
  on a value of type \<^verbatim>\<open>errorResponse\<close>. The library first validates the whole input
  against the JSON grammar (a syntax error leaves the target untouched) and then
  decodes it into the target. The model follows the same two phases: a scanner
  and a pushdown parser that accept exactly the JSON texts, and a decoder into the
  two structs of \<^verbatim>\<open>main.go\<close>.
\<close>

subsection \<open>String literals\<close>

text \<open>The body of a string literal, before unquoting: a source byte (also the byte a
  two-character escape stands for) or the 16-bit unit of a \<^verbatim>\<open>\uXXXX\<close> escape.\<close>

datatype sunit = Byte char | U16 nat

definition replacement_char :: string where
  "replacement_char = [CHR 0xEF, CHR 0xBF, CHR 0xBD]"

definition byte :: "nat \<Rightarrow> char" where
  "byte n = char_of n"

text \<open>\<^verbatim>\<open>utf8.EncodeRune\<close> on a code point that is not a surrogate.\<close>

definition encode_rune :: "nat \<Rightarrow> string" where
  "encode_rune r =
     (if r < 0x80 then [byte r]
      else if r < 0x800 then [byte (0xC0 + r div 64), byte (0x80 + r mod 64)]
      else if r < 0x10000 then
        [byte (0xE0 + r div 4096), byte (0x80 + (r div 64) mod 64), byte (0x80 + r mod 64)]
      else
        [byte (0xF0 + r div 262144), byte (0x80 + (r div 4096) mod 64),
         byte (0x80 + (r div 64) mod 64), byte (0x80 + r mod 64)])"

definition cont_in :: "nat \<Rightarrow> nat \<Rightarrow> char list \<Rightarrow> nat \<Rightarrow> bool" where
  "cont_in lo hi bs i = (i < length bs \<and> lo \<le> of_char (bs ! i) \<and> (of_char (bs ! i) :: nat) \<le> hi)"

text \<open>\<^verbatim>\<open>utf8.DecodeRune\<close>: the width of the well-formed UTF-8 sequence at the head of
  the bytes, or 0 when the first byte does not start one (Go then yields
  \<^verbatim>\<open>RuneError\<close> and advances by one byte). The second byte's range depends on the
  first, which excludes overlong forms, surrogates and code points past U+10FFFF.\<close>

definition utf8_width :: "char list \<Rightarrow> nat" where
  "utf8_width bs =
     (case bs of [] \<Rightarrow> 0
      | c # cs \<Rightarrow>
         (let n = (of_char c :: nat) in
          if n < 0x80 then 1
          else if n < 0xC2 then 0
          else if n < 0xE0 then (if cont_in 0x80 0xBF cs 0 then 2 else 0)
          else if n < 0xF0 then
            (if cont_in (if n = 0xE0 then 0xA0 else 0x80) (if n = 0xED then 0x9F else 0xBF) cs 0
                \<and> cont_in 0x80 0xBF cs 1 then 3 else 0)
          else if n < 0xF5 then
            (if cont_in (if n = 0xF0 then 0x90 else 0x80) (if n = 0xF4 then 0x8F else 0xBF) cs 0
                \<and> cont_in 0x80 0xBF cs 1 \<and> cont_in 0x80 0xBF cs 2 then 4 else 0)
          else 0))"

fun leading_bytes :: "sunit list \<Rightarrow> char list" where
  "leading_bytes (Byte c # us) = c # leading_bytes us"
| "leading_bytes _ = []"

definition is_surrogate :: "nat \<Rightarrow> bool" where
  "is_surrogate r = (0xD800 \<le> r \<and> r < 0xE000)"

definition is_surrogate_pair :: "nat \<Rightarrow> nat \<Rightarrow> bool" where
  "is_surrogate_pair r1 r2 = (0xD800 \<le> r1 \<and> r1 < 0xDC00 \<and> 0xDC00 \<le> r2 \<and> r2 < 0xE000)"

definition decode_surrogates :: "nat \<Rightarrow> nat \<Rightarrow> nat" where
  "decode_surrogates r1 r2 = (r1 - 0xD800) * 1024 + (r2 - 0xDC00) + 0x10000"

definition encode_u16 :: "nat \<Rightarrow> string" where
  "encode_u16 r = (if is_surrogate r then replacement_char else encode_rune r)"

text \<open>
  \<^verbatim>\<open>unquote\<close> of \<^verbatim>\<open>encoding/json\<close>: ASCII is copied; a high surrogate escape directly
  followed by a low surrogate escape is one code point, any other surrogate escape
  is U+FFFD; bytes from 0x80 on are copied when they form well-formed UTF-8 and are
  replaced by U+FFFD, one byte at a time, when they do not.
\<close>

function unquote :: "sunit list \<Rightarrow> string" where
  "unquote [] = []"
| "unquote (U16 r # us) =
     (case us of
        U16 r2 # us' \<Rightarrow>
          (if is_surrogate_pair r r2 then encode_rune (decode_surrogates r r2) @ unquote us'
           else encode_u16 r @ unquote us)
      | _ \<Rightarrow> encode_u16 r @ unquote us)"
| "unquote (Byte c # us) =
     (let w = utf8_width (c # leading_bytes us) in
      if w = 0 then replacement_char @ unquote us
      else (c # take (w - 1) (leading_bytes us)) @ unquote (drop (w - 1) us))"
  by pat_completeness auto
termination
  by (relation "measure length") auto

subsection \<open>Scanner\<close>

datatype token =
    TLBrace | TRBrace | TLBrack | TRBrack | TColon | TComma
  | TString string | TNumber string | TTrue | TFalse | TNull

text \<open>The states of a number literal, as in Go's scanner: after the minus sign, after a
  leading zero, in the integer digits, after the dot, in the fraction digits, after
  the exponent letter, after the exponent sign, in the exponent digits.\<close>

datatype numst = NNeg | NZero | NInt | NDot | NFrac | NE | NESign | NExp

datatype lexst =
    LIdle
  | LStr "sunit list"
  | LEsc "sunit list"
  | LHex "sunit list" nat nat
  | LNum numst string
  | LLit string token

definition is_digit :: "char \<Rightarrow> bool" where
  "is_digit c = (c \<in> set ''0123456789'')"

definition is_space :: "char \<Rightarrow> bool" where
  "is_space c = (c = CHR '' '' \<or> c = CHR 0x09 \<or> c = CHR 0x0D \<or> c = CHR 0x0A)"

fun index_of :: "char \<Rightarrow> char list \<Rightarrow> nat \<Rightarrow> nat option" where
  "index_of c [] i = None"
| "index_of c (x # xs) i = (if c = x then Some i else index_of c xs (Suc i))"

definition hex_val :: "char \<Rightarrow> nat option" where
  "hex_val c =
     (case index_of c ''0123456789abcdef'' 0 of
        Some v \<Rightarrow> Some v
      | None \<Rightarrow> (case index_of c ''ABCDEF'' 10 of Some v \<Rightarrow> Some v | None \<Rightarrow> None))"

definition num_done :: "numst \<Rightarrow> bool" where
  "num_done s = (s = NZero \<or> s = NInt \<or> s = NFrac \<or> s = NExp)"

text \<open>The next state of a number literal on one more character of it, \<open>None\<close> when the
  character is not part of the literal.\<close>

definition num_step :: "numst \<Rightarrow> char \<Rightarrow> numst option" where
  "num_step s c =
     (case s of
        NNeg \<Rightarrow> (if c = CHR ''0'' then Some NZero else if is_digit c then Some NInt else None)
      | NZero \<Rightarrow>
          (if c = CHR ''.'' then Some NDot
           else if c = CHR ''e'' \<or> c = CHR ''E'' then Some NE else None)
      | NInt \<Rightarrow>
          (if is_digit c then Some NInt
           else if c = CHR ''.'' then Some NDot
           else if c = CHR ''e'' \<or> c = CHR ''E'' then Some NE else None)
      | NDot \<Rightarrow> (if is_digit c then Some NFrac else None)
      | NFrac \<Rightarrow>
          (if is_digit c then Some NFrac
           else if c = CHR ''e'' \<or> c = CHR ''E'' then Some NE else None)
      | NE \<Rightarrow>
          (if c = CHR ''+'' \<or> c = CHR ''-'' then Some NESign
           else if is_digit c then Some NExp else None)
      | NESign \<Rightarrow> (if is_digit c then Some NExp else None)
      | NExp \<Rightarrow> (if is_digit c then Some NExp else None))"

text \<open>Outside a literal: white space is skipped, a structural character is a token,
  and a quote, a minus sign, a digit or the first letter of \<^verbatim>\<open>true\<close>, \<^verbatim>\<open>false\<close>,
  \<^verbatim>\<open>null\<close> starts a literal. Tokens are collected in reverse.\<close>

definition idle_step :: "token list \<Rightarrow> char \<Rightarrow> (lexst \<times> token list) option" where
  "idle_step ts c =
     (if is_space c then Some (LIdle, ts)
      else if c = CHR ''{'' then Some (LIdle, TLBrace # ts)
      else if c = CHR ''}'' then Some (LIdle, TRBrace # ts)
      else if c = CHR ''['' then Some (LIdle, TLBrack # ts)
      else if c = CHR '']'' then Some (LIdle, TRBrack # ts)
      else if c = CHR '':'' then Some (LIdle, TColon # ts)
      else if c = CHR '','' then Some (LIdle, TComma # ts)
      else if c = CHR 0x22 then Some (LStr [], ts)
      else if c = CHR ''-'' then Some (LNum NNeg [c], ts)
      else if c = CHR ''0'' then Some (LNum NZero [c], ts)
      else if is_digit c then Some (LNum NInt [c], ts)
      else if c = CHR ''t'' then Some (LLit ''rue'' TTrue, ts)
      else if c = CHR ''f'' then Some (LLit ''alse'' TFalse, ts)
      else if c = CHR ''n'' then Some (LLit ''ull'' TNull, ts)
      else None)"

definition escape_byte :: "char \<Rightarrow> char option" where
  "escape_byte c =
     (if c = CHR ''b'' then Some (CHR 0x08)
      else if c = CHR ''f'' then Some (CHR 0x0C)
      else if c = CHR ''n'' then Some (CHR 0x0A)
      else if c = CHR ''r'' then Some (CHR 0x0D)
      else if c = CHR ''t'' then Some (CHR 0x09)
      else if c = CHR 0x5C \<or> c = CHR ''/'' \<or> c = CHR 0x22 then Some c
      else None)"

fun lex_step :: "lexst \<Rightarrow> token list \<Rightarrow> char \<Rightarrow> (lexst \<times> token list) option" where
  "lex_step LIdle ts c = idle_step ts c"
| "lex_step (LStr us) ts c =
     (if c = CHR 0x22 then Some (LIdle, TString (unquote (rev us)) # ts)
      else if c = CHR 0x5C then Some (LEsc us, ts)
      else if (of_char c :: nat) < 0x20 then None
      else Some (LStr (Byte c # us), ts))"
| "lex_step (LEsc us) ts c =
     (if c = CHR ''u'' then Some (LHex us 0 0, ts)
      else (case escape_byte c of Some b \<Rightarrow> Some (LStr (Byte b # us), ts) | None \<Rightarrow> None))"
| "lex_step (LHex us k v) ts c =
     (case hex_val c of
        None \<Rightarrow> None
      | Some h \<Rightarrow>
          (if k = 3 then Some (LStr (U16 (v * 16 + h) # us), ts)
           else Some (LHex us (Suc k) (v * 16 + h), ts)))"
| "lex_step (LNum s lit) ts c =
     (case num_step s c of
        Some s' \<Rightarrow> Some (LNum s' (c # lit), ts)
      | None \<Rightarrow> (if num_done s then idle_step (TNumber (rev lit) # ts) c else None))"
| "lex_step (LLit rest t) ts c =
     (case rest of
        [] \<Rightarrow> None
      | x # xs \<Rightarrow>
          (if c \<noteq> x then None
           else if xs = [] then Some (LIdle, t # ts) else Some (LLit xs t, ts)))"

fun lex_run :: "lexst \<Rightarrow> token list \<Rightarrow> string \<Rightarrow> token list option" where
  "lex_run st ts [] =
     (case st of
        LIdle \<Rightarrow> Some (rev ts)
      | LNum s lit \<Rightarrow> (if num_done s then Some (rev (TNumber (rev lit) # ts)) else None)
      | _ \<Rightarrow> None)"
| "lex_run st ts (c # cs) =
     (case lex_step st ts c of None \<Rightarrow> None | Some (st', ts') \<Rightarrow> lex_run st' ts' cs)"

definition scan :: "string \<Rightarrow> token list option" where
  "scan b = lex_run LIdle [] b"

subsection \<open>Parser\<close>

datatype json =
    JNull
  | JBool bool
  | JNumber string
  | JString string
  | JArray "json list"
  | JObject "(string \<times> json) list"

text \<open>An open container: an array with its elements so far, an object with its
  members so far (both in reverse), an object whose next value belongs to a key.\<close>

datatype frame =
    FArr "json list"
  | FObj "(string \<times> json) list"
  | FKey "(string \<times> json) list" string

text \<open>What the grammar allows next: a value; a value or the end of the array just
  opened; a key or the end of the object just opened; a key; the colon after a key;
  a comma or the end of the container; nothing, once the top-level value is
  complete.\<close>

datatype pmode = PValue | PValueOrEnd | PKeyOrEnd | PKey | PColon | PNext | PDone json

text \<open>Go's scanner refuses a text whose containers nest deeper than 10000.\<close>

definition maxNestingDepth :: nat where
  "maxNestingDepth = 10000"

fun put_value :: "json \<Rightarrow> frame list \<Rightarrow> (pmode \<times> frame list) option" where
  "put_value v [] = Some (PDone v, [])"
| "put_value v (FArr acc # st) = Some (PNext, FArr (v # acc) # st)"
| "put_value v (FKey acc k # st) = Some (PNext, FObj ((k, v) # acc) # st)"
| "put_value v (FObj acc # st) = None"

definition push_frame :: "pmode \<Rightarrow> frame \<Rightarrow> frame list \<Rightarrow> (pmode \<times> frame list) option" where
  "push_frame m f st = (if length (f # st) \<le> maxNestingDepth then Some (m, f # st) else None)"

definition value_step :: "frame list \<Rightarrow> token \<Rightarrow> (pmode \<times> frame list) option" where
  "value_step st t =
     (case t of
        TLBrace \<Rightarrow> push_frame PKeyOrEnd (FObj []) st
      | TLBrack \<Rightarrow> push_frame PValueOrEnd (FArr []) st
      | TString s \<Rightarrow> put_value (JString s) st
      | TNumber s \<Rightarrow> put_value (JNumber s) st
      | TTrue \<Rightarrow> put_value (JBool True) st
      | TFalse \<Rightarrow> put_value (JBool False) st
      | TNull \<Rightarrow> put_value JNull st
      | _ \<Rightarrow> None)"

definition close_array :: "frame list \<Rightarrow> (pmode \<times> frame list) option" where
  "close_array st =
     (case st of FArr acc # st' \<Rightarrow> put_value (JArray (rev acc)) st' | _ \<Rightarrow> None)"

definition close_object :: "frame list \<Rightarrow> (pmode \<times> frame list) option" where
  "close_object st =
     (case st of FObj acc # st' \<Rightarrow> put_value (JObject (rev acc)) st' | _ \<Rightarrow> None)"

definition key_step :: "frame list \<Rightarrow> token \<Rightarrow> (pmode \<times> frame list) option" where
  "key_step st t =
     (case (t, st) of
        (TString k, FObj acc # st') \<Rightarrow> Some (PColon, FKey acc k # st')
      | _ \<Rightarrow> None)"

fun parse_step :: "pmode \<Rightarrow> frame list \<Rightarrow> token \<Rightarrow> (pmode \<times> frame list) option" where
  "parse_step PValue st t = value_step st t"
| "parse_step PValueOrEnd st t = (if t = TRBrack then close_array st else value_step st t)"
| "parse_step PKeyOrEnd st t = (if t = TRBrace then close_object st else key_step st t)"
| "parse_step PKey st t = key_step st t"
| "parse_step PColon st t = (if t = TColon then Some (PValue, st) else None)"
| "parse_step PNext st t =
     (case st of
        FArr acc # st' \<Rightarrow>
          (if t = TComma then Some (PValue, st)
           else if t = TRBrack then close_array st else None)
      | FObj acc # st' \<Rightarrow>
          (if t = TComma then Some (PKey, st)
           else if t = TRBrace then close_object st else None)
      | _ \<Rightarrow> None)"
| "parse_step (PDone v) st t = None"

fun parse_run :: "pmode \<Rightarrow> frame list \<Rightarrow> token list \<Rightarrow> json option" where
  "parse_run m st [] = (case m of PDone v \<Rightarrow> Some v | _ \<Rightarrow> None)"
| "parse_run m st (t # ts) =
     (case parse_step m st t of None \<Rightarrow> None | Some (m', st') \<Rightarrow> parse_run m' st' ts)"

definition parse_json :: "string \<Rightarrow> json option" where
  "parse_json b = (case scan b of None \<Rightarrow> None | Some ts \<Rightarrow> parse_run PValue [] ts)"

subsection \<open>Decoding into the structs of \<^verbatim>\<open>main.go\<close>\<close>

text \<open>
  \<^verbatim>\<open>
  type artifactoryError struct {
      Status  int    `json:"status"`
      Message string `json:"message"`
  }
  type errorResponse struct {
      Errors []artifactoryError `json:"errors"`
  }
  \<close>
\<close>

record artifactoryError =
  Status :: int
  Message :: string

record errorResponse =
  Errors :: "artifactoryError list"

definition zero_artifactoryError :: artifactoryError where
  "zero_artifactoryError = \<lparr>Status = 0, Message = []\<rparr>"

text \<open>A key selects a struct field when the two are equal up to case. The fold
  maps ASCII letters to upper case and the two non-ASCII letters that fold to
  ASCII ones, U+017F (long s) and U+212A (Kelvin sign), to \<open>S\<close> and \<open>K\<close>.\<close>

definition to_upper :: "char \<Rightarrow> char" where
  "to_upper c =
     (let n = (of_char c :: nat) in if 97 \<le> n \<and> n \<le> 122 then char_of (n - 32) else c)"

function foldName :: "string \<Rightarrow> string" where
  "foldName [] = []"
| "foldName (c # cs) =
     (if c = CHR 0xC5 \<and> take 1 cs = [CHR 0xBF] then CHR ''S'' # foldName (drop 1 cs)
      else if c = CHR 0xE2 \<and> take 2 cs = [CHR 0x84, CHR 0xAA] then CHR ''K'' # foldName (drop 2 cs)
      else to_upper c # foldName cs)"
  by pat_completeness auto
termination
  by (relation "measure length") auto

text \<open>The decoder records the first type error and goes on decoding.\<close>

definition saveError :: "error option \<Rightarrow> error option \<Rightarrow> error option" where
  "saveError saved e = (case saved of None \<Rightarrow> e | Some x \<Rightarrow> Some x)"

text \<open>\<^verbatim>\<open>strconv.ParseInt(s, 10, 64)\<close> on a JSON number literal: only an optional minus
  sign and digits, and the value must fit 64 bits.\<close>

definition digits_value :: "string \<Rightarrow> int" where
  "digits_value ds = foldl (\<lambda>v c. v * 10 + (of_char c - 48)) 0 ds"

definition ParseInt :: "string \<Rightarrow> int option" where
  "ParseInt s =
     (let neg = (take 1 s = ''-'');
          ds = (if neg then drop 1 s else s)
      in if ds = [] \<or> \<not> list_all is_digit ds then None
         else (let v = digits_value ds; n = (if neg then - v else v)
               in if - (2 ^ 63) \<le> n \<and> n \<le> 2 ^ 63 - 1 then Some n else None))"

definition decode_int :: "json \<Rightarrow> int \<Rightarrow> int \<times> error option" where
  "decode_int j old =
     (case j of
        JNull \<Rightarrow> (old, None)
      | JNumber s \<Rightarrow> (case ParseInt s of Some n \<Rightarrow> (n, None) | None \<Rightarrow> (old, Some UnmarshalTypeError))
      | _ \<Rightarrow> (old, Some UnmarshalTypeError))"

definition decode_string :: "json \<Rightarrow> string \<Rightarrow> string \<times> error option" where
  "decode_string j old =
     (case j of
        JNull \<Rightarrow> (old, None)
      | JString s \<Rightarrow> (s, None)
      | _ \<Rightarrow> (old, Some UnmarshalTypeError))"

definition decode_field :: "string \<times> json \<Rightarrow> artifactoryError \<Rightarrow> artifactoryError \<times> error option" where
  "decode_field m v =
     (if foldName (fst m) = ''STATUS'' then
        (case decode_int (snd m) (Status v) of (n, e) \<Rightarrow> (v\<lparr>Status := n\<rparr>, e))
      else if foldName (fst m) = ''MESSAGE'' then
        (case decode_string (snd m) (Message v) of (s, e) \<Rightarrow> (v\<lparr>Message := s\<rparr>, e))
      else (v, None))"

fun decode_fields :: "(string \<times> json) list \<Rightarrow> artifactoryError \<Rightarrow> artifactoryError \<times> error option" where
  "decode_fields [] v = (v, None)"
| "decode_fields (m # ms) v =
     (case decode_field m v of
        (v', e) \<Rightarrow> (case decode_fields ms v' of (v'', e') \<Rightarrow> (v'', saveError e e')))"

definition decode_artifactoryError :: "json \<Rightarrow> artifactoryError \<Rightarrow> artifactoryError \<times> error option" where
  "decode_artifactoryError j v =
     (case j of
        JNull \<Rightarrow> (v, None)
      | JObject ms \<Rightarrow> decode_fields ms v
      | _ \<Rightarrow> (v, Some UnmarshalTypeError))"

text \<open>
  A slice is decoded in place: element \<open>i\<close> of the JSON array is decoded into
  element \<open>i\<close> of the slice's backing array when it has one (the elements the slice
  holds, then the ones an earlier, longer array left behind it), into a zero value
  otherwise. The result holds as many elements as the JSON array; what is left of
  the backing array stays behind it. An empty array and \<^verbatim>\<open>null\<close> give a fresh
  empty slice. Only a repeated \<^verbatim>\<open>errors\<close> key makes the difference visible.
\<close>

fun decode_elems ::
  "json list \<Rightarrow> artifactoryError list \<Rightarrow> artifactoryError list \<times> artifactoryError list \<times> error option" where
  "decode_elems [] backing = ([], backing, None)"
| "decode_elems (j # js) backing =
     (case decode_artifactoryError j (case backing of [] \<Rightarrow> zero_artifactoryError | x # xs \<Rightarrow> x) of
        (v, e) \<Rightarrow>
          (case decode_elems js (drop 1 backing) of
             (vs, rest, e') \<Rightarrow> (v # vs, rest, saveError e e')))"

type_synonym slice = "artifactoryError list \<times> artifactoryError list"

definition decode_slice :: "json \<Rightarrow> slice \<Rightarrow> slice \<times> error option" where
  "decode_slice j sl =
     (case j of
        JNull \<Rightarrow> (([], []), None)
      | JArray js \<Rightarrow>
          (if js = [] then (([], []), None)
           else (case decode_elems js (fst sl @ snd sl) of (vs, rest, e) \<Rightarrow> ((vs, rest), e)))
      | _ \<Rightarrow> (sl, Some UnmarshalTypeError))"

fun decode_members :: "(string \<times> json) list \<Rightarrow> slice \<Rightarrow> slice \<times> error option" where
  "decode_members [] sl = (sl, None)"
| "decode_members (m # ms) sl =
     (if foldName (fst m) = ''ERRORS'' then
        (case decode_slice (snd m) sl of
           (sl', e) \<Rightarrow> (case decode_members ms sl' of (sl'', e') \<Rightarrow> (sl'', saveError e e')))
      else decode_members ms sl)"

text \<open>\<^verbatim>\<open>json.Unmarshal(b, &response)\<close> with \<^verbatim>\<open>response := errorResponse{}\<close>: the decoded
  struct and the error (\<^verbatim>\<open>nil\<close> is \<open>None\<close>).\<close>

definition json_Unmarshal :: "string \<Rightarrow> errorResponse \<times> error option" where
  "json_Unmarshal b =
     (case parse_json b of
        None \<Rightarrow> (\<lparr>Errors = []\<rparr>, Some SyntaxError)
      | Some JNull \<Rightarrow> (\<lparr>Errors = []\<rparr>, None)
      | Some (JObject ms) \<Rightarrow> (case decode_members ms ([], []) of (sl, e) \<Rightarrow> (\<lparr>Errors = fst sl\<rparr>, e))
      | Some _ \<Rightarrow> (\<lparr>Errors = []\<rparr>, Some UnmarshalTypeError))"

section \<open>The error decoder\<close>

text \<open>
  \<^verbatim>\<open>
  func getArtifactoryError(b []byte, code int) error {
      response := errorResponse{}
      err := json.Unmarshal(b, &response)
      if err != nil || len(response.Errors) == 0 {
          return fmt.Errorf("%d: could not properly parse response JSON: %s", code, string(b))
      }
      return fmt.Errorf("%d: %s", code, response.Errors[0].Message)
  }
  \<close>
\<close>

definition getArtifactoryError :: "string \<Rightarrow> int \<Rightarrow> error option" where
  "getArtifactoryError b code =
     (case json_Unmarshal b of
        (response, err) \<Rightarrow>
          (if err \<noteq> None \<or> length (Errors response) = 0 then
             Some (ErrorString (fmt_d code @ '': could not properly parse response JSON: '' @ b))
           else Some (ErrorString (fmt_d code @ '': '' @ Message (Errors response ! 0)))))"

subsection \<open>The bodies that decode into an envelope\<close>

text \<open>
  The condition on the body itself, stated on the JSON value and apart from the
  decoder: the text is JSON and its value is an object; every member whose key is
  \<^verbatim>\<open>errors\<close>, whatever its case, is \<^verbatim>\<open>null\<close> or an array whose elements are each \<^verbatim>\<open>null\<close>
  or an object in which a \<^verbatim>\<open>status\<close> member is \<^verbatim>\<open>null\<close> or an integer of 64 bits and a
  \<^verbatim>\<open>message\<close> member is \<^verbatim>\<open>null\<close> or a string; and the last such member is an array
  that is not empty. An element need not have the two fields, and may be \<^verbatim>\<open>null\<close>.
\<close>

definition well_typed_field :: "string \<times> json \<Rightarrow> bool" where
  "well_typed_field m =
     (if foldName (fst m) = ''STATUS'' then
        (case snd m of JNull \<Rightarrow> True | JNumber s \<Rightarrow> ParseInt s \<noteq> None | _ \<Rightarrow> False)
      else if foldName (fst m) = ''MESSAGE'' then
        (case snd m of JNull \<Rightarrow> True | JString s \<Rightarrow> True | _ \<Rightarrow> False)
      else True)"

definition record_or_null :: "json \<Rightarrow> bool" where
  "record_or_null j =
     (case j of JNull \<Rightarrow> True | JObject fs \<Rightarrow> list_all well_typed_field fs | _ \<Rightarrow> False)"

definition records_or_null :: "json \<Rightarrow> bool" where
  "records_or_null j =
     (case j of JNull \<Rightarrow> True | JArray es \<Rightarrow> list_all record_or_null es | _ \<Rightarrow> False)"

definition nonempty_array :: "json \<Rightarrow> bool" where
  "nonempty_array j = (case j of JArray es \<Rightarrow> es \<noteq> [] | _ \<Rightarrow> False)"

definition errors_members :: "(string \<times> json) list \<Rightarrow> json list" where
  "errors_members ms = map snd (filter (\<lambda>m. foldName (fst m) = ''ERRORS'') ms)"

definition is_envelope :: "json \<Rightarrow> bool" where
  "is_envelope j =
     (case j of
        JObject ms \<Rightarrow>
          errors_members ms \<noteq> [] \<and> list_all records_or_null (errors_members ms)
          \<and> nonempty_array (last (errors_members ms))
      | _ \<Rightarrow> False)"

definition decodes_as_envelope :: "string \<Rightarrow> bool" where
  "decodes_as_envelope b = (case parse_json b of None \<Rightarrow> False | Some j \<Rightarrow> is_envelope j)"

section \<open>The outside world\<close>

text \<open>
  An \<^verbatim>\<open>*http.Response\<close> as the handlers use it: the status code, and what
  \<^verbatim>\<open>ioutil.ReadAll(resp.Body)\<close> returns, the bytes of the body or a read error.
  \<^verbatim>\<open>resp.Body.Close()\<close> is deferred by both handlers and has no part in their result;
  it is left out.
\<close>

record Response =
  StatusCode :: int
  Body :: "error + string"

text \<open>\<^verbatim>\<open>helmrepo.Repo\<close>, with the fields that \<^verbatim>\<open>push\<close> reads.\<close>

record Repo =
  URL :: string
  Username :: string
  Password :: string
  CAFile :: string
  CertFile :: string
  KeyFile :: string

text \<open>The options \<^verbatim>\<open>push\<close> passes to \<^verbatim>\<open>artifactory.NewClient\<close>, in the order of the call.\<close>

record clientOptions =
  optURL :: string
  optPath :: string
  optUsername :: string
  optPassword :: string
  optAccessToken :: string
  optApiKey :: string
  optCAFile :: string
  optCertFile :: string
  optKeyFile :: string
  optInsecureSkipVerify :: bool

text \<open>
  Every call that leaves \<^verbatim>\<open>main.go\<close> for the file system, the network or the
  terminal is an event, with its arguments and what it returned. The world is the
  list of the events so far and the set of the paths that exist.
\<close>

datatype event =
    EvGetRepoByName string "error + Repo"
  | EvGetChartByName string "error option"
  | EvOverrideValues "string list" "error option"
  | EvNewClient clientOptions "error option"
  | EvTempDir "error + string"
  | EvCreateChartPackage string "error + string"
  | EvUploadChartPackage string string "error + Response"
  | EvReindexArtifactoryRepo "error + Response"
  | EvPrintln string
  | EvRemoveAll string

record world =
  trace :: "event list"
  paths :: "string set"

definition log_event :: "event \<Rightarrow> world \<Rightarrow> world" where
  "log_event e w = w\<lparr>trace := trace w @ [e]\<rparr>"

definition is_network :: "event \<Rightarrow> bool" where
  "is_network e =
     (case e of
        EvUploadChartPackage n f r \<Rightarrow> True
      | EvReindexArtifactoryRepo r \<Rightarrow> True
      | _ \<Rightarrow> False)"

definition error_of :: "error + 'a \<Rightarrow> error option" where
  "error_of r = (case r of Inl e \<Rightarrow> Some e | Inr v \<Rightarrow> None)"

text \<open>\<^verbatim>\<open>ioutil.TempDir\<close> creates the directory it returns; \<^verbatim>\<open>os.RemoveAll\<close> removes
  a path and everything below it.\<close>

definition below :: "string \<Rightarrow> string \<Rightarrow> bool" where
  "below d q = (q = d \<or> prefix (d @ ''/'') q)"

definition RemoveAll :: "string \<Rightarrow> world \<Rightarrow> world" where
  "RemoveAll d w = log_event (EvRemoveAll d) (w\<lparr>paths := Set.filter (\<lambda>q. \<not> below d q) (paths w)\<rparr>)"

definition Println :: "string \<Rightarrow> world \<Rightarrow> world" where
  "Println s w = log_event (EvPrintln s) w"

text \<open>
  The packages \<^verbatim>\<open>pkg/repo\<close>, \<^verbatim>\<open>pkg/helm\<close> and \<^verbatim>\<open>pkg/artifactory\<close> and the calls into
  \<^verbatim>\<open>net/url\<close> and \<^verbatim>\<open>io/ioutil\<close> are parameters of the model: whatever they return,
  \<^verbatim>\<open>push\<close> goes on from there. \<open>'c\<close> is the chart, \<open>'k\<close> the client. A chart method
  that changes the chart returns the changed chart.
\<close>

record ('c, 'k) collaborators =
  ParseRequestURI :: "string \<Rightarrow> error option"
  GetRepoByName :: "string \<Rightarrow> error + Repo"
  GetChartByName :: "string \<Rightarrow> error + 'c"
  SetVersion :: "'c \<Rightarrow> string \<Rightarrow> 'c"
  SetAppVersion :: "'c \<Rightarrow> string \<Rightarrow> 'c"
  OverrideValues :: "'c \<Rightarrow> string list \<Rightarrow> error + 'c"
  MetadataName :: "'c \<Rightarrow> string"
  NewClient :: "clientOptions \<Rightarrow> error + 'k"
  TempDir :: "error + string"
  CreateChartPackage :: "'c \<Rightarrow> string \<Rightarrow> error + string"
  UploadChartPackage :: "'k \<Rightarrow> string \<Rightarrow> string \<Rightarrow> error + Response"
  ReindexArtifactoryRepo :: "'k \<Rightarrow> error + Response"

text \<open>Modelled from the spec: \<^verbatim>\<open>helmrepo.GetRepoByName\<close> (\<^verbatim>\<open>pkg/repo\<close>) is not part of the
  sources at hand. The spec has it look the name up in the local repository
  configuration and fail with \<^verbatim>\<open>UnknownRepository\<close> when the name is absent.\<close>

definition GetRepoByName_store :: "(string \<rightharpoonup> Repo) \<Rightarrow> string \<Rightarrow> error + Repo" where
  "GetRepoByName_store store name =
     (case store name of None \<Rightarrow> Inl (UnknownRepository name) | Some r \<Rightarrow> Inr r)"

section \<open>Response handlers\<close>

text \<open>
  \<^verbatim>\<open>
  func handleReindexResponse(resp *http.Response) error {
      defer resp.Body.Close()
      b, err := ioutil.ReadAll(resp.Body)
      if err != nil {
          return err
      }
      if resp.StatusCode != 200 {
          return getArtifactoryError(b, resp.StatusCode)
      }
      fmt.Println(string(b))
      return nil
  }
  \<close>
\<close>

definition handleReindexResponse :: "Response \<Rightarrow> world \<Rightarrow> error option \<times> world" where
  "handleReindexResponse resp w =
     (case Body resp of
        Inl err \<Rightarrow> (Some err, w)
      | Inr b \<Rightarrow>
          (if StatusCode resp \<noteq> 200 then (getArtifactoryError b (StatusCode resp), w)
           else (None, Println b w)))"

text \<open>
  \<^verbatim>\<open>
  func handlePushResponse(resp *http.Response) error {
      defer resp.Body.Close()
      if resp.StatusCode != 201 {
          b, err := ioutil.ReadAll(resp.Body)
          if err != nil {
              return err
          }
          return getArtifactoryError(b, resp.StatusCode)
      }
      fmt.Println("Done.")
      return nil
  }
  \<close>
\<close>

definition handlePushResponse :: "Response \<Rightarrow> world \<Rightarrow> error option \<times> world" where
  "handlePushResponse resp w =
     (if StatusCode resp \<noteq> 201 then
        (case Body resp of
           Inl err \<Rightarrow> (Some err, w)
         | Inr b \<Rightarrow> (getArtifactoryError b (StatusCode resp), w))
      else (None, Println ''Done.'' w))"

section \<open>The push command\<close>

text \<open>The struct \<^verbatim>\<open>pushCmd\<close>. After flag parsing a field holds the value of its flag,
  or the flag's default (the empty string, \<^verbatim>\<open>false\<close>, no overrides).\<close>

record pushCmd =
  chartName :: string
  chartVersion :: string
  appVersion :: string
  repository :: string
  path :: string
  username :: string
  password :: string
  accessToken :: string
  apiKey :: string
  caFile :: string
  certFile :: string
  keyFile :: string
  insecureSkipVerify :: bool
  skipReindex :: bool
  overrides :: "string list"

definition flag_defaults :: pushCmd where
  "flag_defaults =
     \<lparr>chartName = [], chartVersion = [], appVersion = [], repository = [], path = [],
      username = [], password = [], accessToken = [], apiKey = [], caFile = [],
      certFile = [], keyFile = [], insecureSkipVerify = False, skipReindex = False,
      overrides = []\<rparr>"

text \<open>\<^verbatim>\<open>strconv.ParseBool\<close>: the value, \<^verbatim>\<open>false\<close> when the string is none of the twelve
  accepted spellings, and the error.\<close>

definition ParseBool :: "string \<Rightarrow> bool \<times> error option" where
  "ParseBool str =
     (if str \<in> set [''1'', ''t'', ''T'', ''TRUE'', ''true'', ''True''] then (True, None)
      else if str \<in> set [''0'', ''f'', ''F'', ''FALSE'', ''false'', ''False''] then (False, None)
      else (False, Some (NumError str)))"

text \<open>
  The process environment is a map from names to values; \<^verbatim>\<open>os.LookupEnv\<close> is the
  lookup. The two shapes of statement in \<^verbatim>\<open>setFieldsFromEnv\<close>:
  \<^verbatim>\<open>
  if v, ok := os.LookupEnv("HELM_REPO_USERNAME"); ok && p.username == "" {
      p.username = v
  }
  if v, ok := os.LookupEnv("HELM_REPO_INSECURE"); ok {
      p.insecureSkipVerify, _ = strconv.ParseBool(v)
  }
  \<close>
\<close>

definition string_from_env :: "(string \<rightharpoonup> string) \<Rightarrow> string \<Rightarrow> string \<Rightarrow> string" where
  "string_from_env env name field =
     (case env name of Some v \<Rightarrow> (if field = [] then v else field) | None \<Rightarrow> field)"

definition bool_from_env :: "(string \<rightharpoonup> string) \<Rightarrow> string \<Rightarrow> bool \<Rightarrow> bool" where
  "bool_from_env env name field =
     (case env name of Some v \<Rightarrow> fst (ParseBool v) | None \<Rightarrow> field)"

definition setFieldsFromEnv :: "(string \<rightharpoonup> string) \<Rightarrow> pushCmd \<Rightarrow> pushCmd" where
  "setFieldsFromEnv env p =
     p\<lparr>path := string_from_env env ''HELM_REPO_PATH'' (path p),
       username := string_from_env env ''HELM_REPO_USERNAME'' (username p),
       password := string_from_env env ''HELM_REPO_PASSWORD'' (password p),
       accessToken := string_from_env env ''HELM_REPO_ACCESS_TOKEN'' (accessToken p),
       apiKey := string_from_env env ''HELM_REPO_API_KEY'' (apiKey p),
       caFile := string_from_env env ''HELM_REPO_CA_FILE'' (caFile p),
       certFile := string_from_env env ''HELM_REPO_CERT_FILE'' (certFile p),
       keyFile := string_from_env env ''HELM_REPO_KEY_FILE'' (keyFile p),
       insecureSkipVerify := bool_from_env env ''HELM_REPO_INSECURE'' (insecureSkipVerify p),
       skipReindex := bool_from_env env ''HELM_REPO_SKIP_REINDEX'' (skipReindex p)\<rparr>"

text \<open>\<^verbatim>\<open>regexp.MustCompile(`^https?://`).MatchString\<close>: the argument starts with
  \<^verbatim>\<open>http://\<close> or with \<^verbatim>\<open>https://\<close>.\<close>

definition looksLikeURL :: "string \<Rightarrow> bool" where
  "looksLikeURL s = (take 7 s = ''http://'' \<or> take 8 s = ''https://'')"

text \<open>
  Lines 132 to 143 of \<^verbatim>\<open>push\<close>: a URL is only checked, any other argument is looked up
  in the repository list. The result is the error, or the entry found (\<^verbatim>\<open>repo\<close> stays
  \<^verbatim>\<open>nil\<close> for a URL).
\<close>

definition resolveRepository ::
  "('c, 'k) collaborators \<Rightarrow> pushCmd \<Rightarrow> world \<Rightarrow> (error + Repo option) \<times> world" where
  "resolveRepository X p w =
     (if looksLikeURL (repository p) then
        (case ParseRequestURI X (repository p) of
           Some err \<Rightarrow> (Inl err, w)
         | None \<Rightarrow> (Inr None, w))
      else
        (let r = GetRepoByName X (repository p);
             w' = log_event (EvGetRepoByName (repository p) r) w
         in case r of Inl err \<Rightarrow> (Inl err, w') | Inr repo \<Rightarrow> (Inr (Some repo), w')))"

text \<open>Lines 145 to 165: the chart is loaded, its version and app version are
  overridden when the flags are not empty, and the value overrides are applied when
  there are any.\<close>

definition loadChart :: "('c, 'k) collaborators \<Rightarrow> pushCmd \<Rightarrow> world \<Rightarrow> (error + 'c) \<times> world" where
  "loadChart X p w =
     (let r = GetChartByName X (chartName p);
          w1 = log_event (EvGetChartByName (chartName p) (error_of r)) w
      in case r of
           Inl err \<Rightarrow> (Inl err, w1)
         | Inr chart \<Rightarrow>
             (let chart1 = (if chartVersion p \<noteq> [] then SetVersion X chart (chartVersion p) else chart);
                  chart2 = (if appVersion p \<noteq> [] then SetAppVersion X chart1 (appVersion p) else chart1)
              in if length (overrides p) > 0 then
                   (let r' = OverrideValues X chart2 (overrides p);
                        w2 = log_event (EvOverrideValues (overrides p) (error_of r')) w1
                    in case r' of Inl err \<Rightarrow> (Inl err, w2) | Inr chart3 \<Rightarrow> (Inr chart3, w2))
                 else (Inr chart2, w1)))"

text \<open>Lines 167 to 184: the stored entry gives the URL, and each credential and TLS
  file that is still empty.\<close>

definition setFieldsFromRepo :: "Repo option \<Rightarrow> pushCmd \<Rightarrow> pushCmd" where
  "setFieldsFromRepo repo p =
     (case repo of
        None \<Rightarrow> p
      | Some r \<Rightarrow>
          p\<lparr>repository := URL r,
            username := (if username p = [] then Username r else username p),
            password := (if password p = [] then Password r else password p),
            caFile := (if caFile p = [] then CAFile r else caFile p),
            certFile := (if certFile p = [] then CertFile r else certFile p),
            keyFile := (if keyFile p = [] then KeyFile r else keyFile p)\<rparr>)"

text \<open>Lines 186 to 197: the arguments of \<^verbatim>\<open>artifactory.NewClient\<close>.\<close>

definition newClientOptions :: "pushCmd \<Rightarrow> clientOptions" where
  "newClientOptions p =
     \<lparr>optURL = repository p, optPath = path p, optUsername = username p,
      optPassword = password p, optAccessToken = accessToken p, optApiKey = apiKey p,
      optCAFile = caFile p, optCertFile = certFile p, optKeyFile = keyFile p,
      optInsecureSkipVerify = insecureSkipVerify p\<rparr>"

text \<open>Lines 209 to 231: package, upload, check the answer, and reindex unless told
  not to.\<close>

definition uploadPackage ::
  "('c, 'k) collaborators \<Rightarrow> pushCmd \<Rightarrow> 'c \<Rightarrow> 'k \<Rightarrow> string \<Rightarrow> world \<Rightarrow> error option \<times> world" where
  "uploadPackage X p chart client tmp w =
     (let r = CreateChartPackage X chart tmp;
          w1 = log_event (EvCreateChartPackage tmp r) w
      in case r of
           Inl err \<Rightarrow> (Some err, w1)
         | Inr chartPackagePath \<Rightarrow>
             (let u = UploadChartPackage X client (MetadataName X chart) chartPackagePath;
                  w2 = log_event (EvUploadChartPackage (MetadataName X chart) chartPackagePath u) w1
              in case u of
                   Inl err \<Rightarrow> (Some err, w2)
                 | Inr resp \<Rightarrow>
                     (case handlePushResponse resp w2 of
                        (Some err, w3) \<Rightarrow> (Some err, w3)
                      | (None, w3) \<Rightarrow>
                          (if skipReindex p then (None, w3)
                           else
                             (let x = ReindexArtifactoryRepo X client;
                                  w4 = log_event (EvReindexArtifactoryRepo x) w3
                              in case x of
                                   Inl err \<Rightarrow> (Some err, w4)
                                 | Inr resp' \<Rightarrow> handleReindexResponse resp' w4)))))"

text \<open>
  \<^verbatim>\<open>push\<close> as a whole. \<^verbatim>\<open>defer os.RemoveAll(tmp)\<close> runs when \<^verbatim>\<open>push\<close> returns, on
  every path that leaves it after the directory was made, so it wraps the rest of
  the body.
\<close>

definition push :: "('c, 'k) collaborators \<Rightarrow> pushCmd \<Rightarrow> world \<Rightarrow> error option \<times> world" where
  "push X p w =
     (case resolveRepository X p w of
        (Inl err, w1) \<Rightarrow> (Some err, w1)
      | (Inr repo, w1) \<Rightarrow>
          (case loadChart X p w1 of
             (Inl err, w2) \<Rightarrow> (Some err, w2)
           | (Inr chart, w2) \<Rightarrow>
               (let p' = setFieldsFromRepo repo p;
                    c = NewClient X (newClientOptions p');
                    w3 = log_event (EvNewClient (newClientOptions p') (error_of c)) w2
                in case c of
                     Inl err \<Rightarrow> (Some err, w3)
                   | Inr client \<Rightarrow>
                       (let w4 = log_event (EvTempDir (TempDir X)) w3
                        in case TempDir X of
                             Inl err \<Rightarrow> (Some err, w4)
                           | Inr tmp \<Rightarrow>
                               (case uploadPackage X p' chart client tmp
                                       (w4\<lparr>paths := insert tmp (paths w4)\<rparr>) of
                                  (res, w5) \<Rightarrow> (res, RemoveAll tmp w5))))))"

text \<open>The command's \<^verbatim>\<open>RunE\<close>: two arguments, the fields the environment fills, then
  \<^verbatim>\<open>push\<close>. \<open>p\<close> is the struct as flag parsing left it.\<close>

definition RunE ::
  "('c, 'k) collaborators \<Rightarrow> (string \<rightharpoonup> string) \<Rightarrow> pushCmd \<Rightarrow> string list \<Rightarrow> world \<Rightarrow> error option \<times> world" where
  "RunE X env p args w =
     (if length args \<noteq> 2 then
        (Some (ErrorString ''This command needs 2 arguments: name of chart, repository URL''), w)
      else push X (setFieldsFromEnv env (p\<lparr>chartName := args ! 0, repository := args ! 1\<rparr>)) w)"

definition start :: "string set \<Rightarrow> world" where
  "start ps = \<lparr>trace = [], paths = ps\<rparr>"

section \<open>Example runs\<close>

text \<open>
  Collaborators for a push of the chart \<^verbatim>\<open>mychart\<close> where every step succeeds: the
  upload is answered with 201, the reindex with 200. The variants below make one
  step fail.
\<close>

definition demo_collaborators :: "(string, unit) collaborators" where
  "demo_collaborators =
     \<lparr>ParseRequestURI = (\<lambda>u. None),
      GetRepoByName = GetRepoByName_store Map.empty,
      GetChartByName = (\<lambda>n. Inr n),
      SetVersion = (\<lambda>c v. c),
      SetAppVersion = (\<lambda>c v. c),
      OverrideValues = (\<lambda>c ovs. Inr c),
      MetadataName = (\<lambda>c. c),
      NewClient = (\<lambda>opts. Inr ()),
      TempDir = Inr ''/tmp/helm-push-artifactory-1'',
      CreateChartPackage = (\<lambda>c d. Inr (d @ ''/'' @ c @ ''.tgz'')),
      UploadChartPackage = (\<lambda>k n f. Inr \<lparr>StatusCode = 201, Body = Inr []\<rparr>),
      ReindexArtifactoryRepo = (\<lambda>k. Inr \<lparr>StatusCode = 200, Body = Inr ''ok''\<rparr>)\<rparr>"

definition demo_cmd :: pushCmd where
  "demo_cmd = flag_defaults\<lparr>chartName := ''mychart'', repository := ''https://artifactory/repo''\<rparr>"

definition created :: Response where
  "created = \<lparr>StatusCode = 201, Body = Inr []\<rparr>"

definition demo_upload :: event where
  "demo_upload = EvUploadChartPackage ''mychart'' ''/tmp/helm-push-artifactory-1/mychart.tgz'' (Inr created)"

definition bad_override :: error where
  "bad_override = ErrorString ''failed parsing --set data''"

definition bad_package :: error where
  "bad_package = ErrorString ''cannot write the archive''"

definition override_fails :: "(string, unit) collaborators" where
  "override_fails = demo_collaborators\<lparr>OverrideValues := (\<lambda>c ovs. Inl bad_override)\<rparr>"

definition packaging_fails :: "(string, unit) collaborators" where
  "packaging_fails = demo_collaborators\<lparr>CreateChartPackage := (\<lambda>c d. Inl bad_package)\<rparr>"

definition demo_set :: pushCmd where
  "demo_set = demo_cmd\<lparr>overrides := [''image.tag=1.2.3'']\<rparr>"


definition stored_repo :: Repo where
  "stored_repo =
     \<lparr>URL = ''https://artifactory/repo'', Username = ''bob'', Password = ''secret'',
      CAFile = [], CertFile = [], KeyFile = []\<rparr>"

definition demo_named :: pushCmd where
  "demo_named = demo_cmd\<lparr>repository := ''my-helm-repo''\<rparr>"

definition insecure_env :: "string \<rightharpoonup> string" where
  "insecure_env = [''HELM_REPO_INSECURE'' \<mapsto> ''false'']"

definition insecure_flag :: pushCmd where
  "insecure_flag = flag_defaults\<lparr>insecureSkipVerify := True\<rparr>"

definition conflict_body :: string where
  \<open>conflict_body = ''{"errors":[{"status":409,"message":"conflict"}]}''\<close>

definition conflict :: Response where
  "conflict = \<lparr>StatusCode = 409, Body = Inr conflict_body\<rparr>"

definition broken_body :: Response where
  "broken_body = \<lparr>StatusCode = 200, Body = Inl (ErrorString ''unexpected EOF'')\<rparr>"

section \<open>The decimal format and the bodies that decode\<close>

text \<open>\<open>fmt_d\<close> writes decimal digits: reading the digits of a code that is not
  negative gives the code back.\<close>

lemma digit_chars:
  "\<forall>k\<in>set [0..<10]. (of_char (digit_char k) :: int) = 48 + int k \<and> is_digit (digit_char k)"
  by code_simp

lemma of_char_digit_char: "k < 10 \<Longrightarrow> (of_char (digit_char k) :: int) = 48 + int k"
  using digit_chars by simp

lemma is_digit_digit_char: "k < 10 \<Longrightarrow> is_digit (digit_char k)"
  using digit_chars by simp

lemma digits_value_snoc: "digits_value (ds @ [c]) = digits_value ds * 10 + (of_char c - 48)"
  by (simp add: digits_value_def)

lemma nat_digits_decimal:
  "digits_value (nat_digits n) = int n \<and> list_all is_digit (nat_digits n)"
proof (induction n rule: nat_digits.induct)
  case (1 n)
  show ?case
  proof (cases "n < 10")
    case True
    then show ?thesis
      by (simp add: nat_digits.simps[of n] digits_value_def of_char_digit_char is_digit_digit_char)
  next
    case False
    with 1 have ih: "digits_value (nat_digits (n div 10)) = int (n div 10)"
      "list_all is_digit (nat_digits (n div 10))" by simp_all
    have "n mod 10 < 10" by simp
    with False ih show ?thesis
      by (simp add: nat_digits.simps[of n] digits_value_snoc of_char_digit_char is_digit_digit_char)
        (simp add: zdiv_int zmod_int)
  qed
qed

lemma fmt_d_decimal:
  "0 \<le> i \<Longrightarrow> digits_value (fmt_d i) = i \<and> list_all is_digit (fmt_d i)"
  using nat_digits_decimal[of "nat i"] by (simp add: fmt_d_def)

text \<open>The decoder returns no error and a list that is not empty exactly on the bodies
  described above.\<close>

lemma saveError_None: "saveError a b = None \<longleftrightarrow> a = None \<and> b = None"
  by (cases a) (simp_all add: saveError_def)

lemma decode_field_ok: "snd (decode_field m v) = None \<longleftrightarrow> well_typed_field m"
  by (auto simp: decode_field_def decode_int_def decode_string_def well_typed_field_def
      split: json.splits option.splits)

lemma decode_fields_ok: "snd (decode_fields ms v) = None \<longleftrightarrow> list_all well_typed_field ms"
proof (induction ms arbitrary: v)
  case Nil
  show ?case by simp
next
  case (Cons m ms)
  obtain v' e where f: "decode_field m v = (v', e)" by (cases "decode_field m v")
  obtain v'' e' where g: "decode_fields ms v' = (v'', e')" by (cases "decode_fields ms v'")
  from decode_field_ok[of m v] f have "e = None \<longleftrightarrow> well_typed_field m" by simp
  moreover from Cons.IH[of v'] g have "e' = None \<longleftrightarrow> list_all well_typed_field ms" by simp
  ultimately show ?case using f g by (simp add: saveError_None)
qed

lemma decode_artifactoryError_ok:
  "snd (decode_artifactoryError j v) = None \<longleftrightarrow> record_or_null j"
  by (cases j) (simp_all add: decode_artifactoryError_def record_or_null_def decode_fields_ok)

lemma decode_elems_ok:
  "decode_elems js backing = (vs, rest, e) \<Longrightarrow>
     length vs = length js \<and> (e = None \<longleftrightarrow> list_all record_or_null js)"
proof (induction js arbitrary: backing vs rest e)
  case Nil
  then show ?case by simp
next
  case (Cons j js)
  let ?t = "case backing of [] \<Rightarrow> zero_artifactoryError | x # xs \<Rightarrow> x"
  obtain v e1 where a: "decode_artifactoryError j ?t = (v, e1)"
    by (cases "decode_artifactoryError j ?t")
  obtain vs' rest' e2 where b: "decode_elems js (drop 1 backing) = (vs', rest', e2)"
    by (cases "decode_elems js (drop 1 backing)")
  from decode_artifactoryError_ok[of j ?t] a have 1: "e1 = None \<longleftrightarrow> record_or_null j" by simp
  from Cons.IH[OF b] have 2: "length vs' = length js" "e2 = None \<longleftrightarrow> list_all record_or_null js"
    by simp_all
  from Cons.prems a b have "vs = v # vs'" "e = saveError e1 e2" by simp_all
  with 1 2 show ?case by (simp add: saveError_None)
qed

lemma decode_slice_ok:
  assumes "decode_slice j sl = (sl', e)"
  shows "(e = None \<longleftrightarrow> records_or_null j)
       \<and> (e = None \<longrightarrow> (fst sl' \<noteq> [] \<longleftrightarrow> nonempty_array j))"
proof (cases j)
  case (JArray es)
  show ?thesis
  proof (cases "es = []")
    case True
    with assms JArray show ?thesis
      by (auto simp: decode_slice_def records_or_null_def nonempty_array_def)
  next
    case False
    obtain vs rest e' where d: "decode_elems es (fst sl @ snd sl) = (vs, rest, e')"
      by (cases "decode_elems es (fst sl @ snd sl)")
    from decode_elems_ok[OF d] have "length vs = length es" "e' = None \<longleftrightarrow> list_all record_or_null es"
      by simp_all
    moreover from assms JArray False d have "sl' = (vs, rest)" "e = e'"
      by (simp_all add: decode_slice_def)
    ultimately show ?thesis using JArray False
      by (auto simp: records_or_null_def nonempty_array_def)
  qed
qed (use assms in \<open>auto simp: decode_slice_def records_or_null_def nonempty_array_def\<close>)

lemma decode_members_ok:
  "decode_members ms sl = (sl', e) \<Longrightarrow>
     (e = None \<longleftrightarrow> list_all records_or_null (errors_members ms))
     \<and> (e = None \<longrightarrow>
          (fst sl' \<noteq> [] \<longleftrightarrow>
             (if errors_members ms = [] then fst sl \<noteq> []
              else nonempty_array (last (errors_members ms)))))"
proof (induction ms arbitrary: sl sl' e)
  case Nil
  then show ?case by (simp add: errors_members_def)
next
  case (Cons m ms)
  show ?case
  proof (cases "foldName (fst m) = ''ERRORS''")
    case False
    with Cons.prems have "decode_members ms sl = (sl', e)" by simp
    from Cons.IH[OF this] False show ?thesis by (simp add: errors_members_def)
  next
    case True
    obtain s1 e1 where a: "decode_slice (snd m) sl = (s1, e1)" by (cases "decode_slice (snd m) sl")
    obtain s2 e2 where b: "decode_members ms s1 = (s2, e2)" by (cases "decode_members ms s1")
    from Cons.prems True a b have r: "sl' = s2" "e = saveError e1 e2" by simp_all
    from True have em: "errors_members (m # ms) = snd m # errors_members ms"
      by (simp add: errors_members_def)
    note A = decode_slice_ok[OF a]
    note B = Cons.IH[OF b]
    show ?thesis
      using A B unfolding r em by (auto simp: saveError_None)
  qed
qed

lemma json_Unmarshal_envelope:
  assumes "json_Unmarshal b = (r, err)"
  shows "(err = None \<and> Errors r \<noteq> []) \<longleftrightarrow> decodes_as_envelope b"
proof (cases "parse_json b")
  case None
  with assms show ?thesis by (auto simp: json_Unmarshal_def decodes_as_envelope_def)
next
  case (Some j)
  show ?thesis
  proof (cases j)
    case (JObject ms)
    obtain sl e where d: "decode_members ms ([], []) = (sl, e)"
      by (cases "decode_members ms ([], [])")
    from assms Some JObject d have r: "r = \<lparr>Errors = fst sl\<rparr>" "err = e"
      by (simp_all add: json_Unmarshal_def)
    from decode_members_ok[OF d] show ?thesis
      unfolding r using Some JObject
      by (auto simp: decodes_as_envelope_def is_envelope_def split: if_splits)
  qed (use assms Some in \<open>auto simp: json_Unmarshal_def decodes_as_envelope_def is_envelope_def\<close>)
qed

section \<open>Events of each phase\<close>

lemma world_start [simp]: "trace (start ps) = []" "paths (start ps) = ps"
  by (simp_all add: start_def)

lemma world_log_event [simp]: "trace (log_event e w) = trace w @ [e]" "paths (log_event e w) = paths w"
  by (simp_all add: log_event_def)

lemma world_RemoveAll [simp]:
  "trace (RemoveAll d w) = trace w @ [EvRemoveAll d]"
  "paths (RemoveAll d w) = Set.filter (\<lambda>q. \<not> below d q) (paths w)"
  by (simp_all add: RemoveAll_def)

lemma getArtifactoryError_is_error: "\<exists>e. getArtifactoryError b c = Some e"
  by (cases "json_Unmarshal b") (simp add: getArtifactoryError_def)

lemma handlePushResponse_refused:
  "StatusCode resp \<noteq> 201 \<Longrightarrow> \<exists>e. handlePushResponse resp w = (Some e, w)"
  using getArtifactoryError_is_error[of _ "StatusCode resp"]
  by (cases "Body resp") (auto simp: handlePushResponse_def)

lemma handlePushResponse_created:
  "StatusCode resp = 201 \<Longrightarrow> handlePushResponse resp w = (None, Println ''Done.'' w)"
  by (simp add: handlePushResponse_def)

lemma resolveRepository_events:
  assumes "resolveRepository X p w = (r, w')"
  shows "paths w' = paths w"
    and "trace w' = trace w @ (if looksLikeURL (repository p) then []
           else [EvGetRepoByName (repository p) (GetRepoByName X (repository p))])"
    and "\<not> looksLikeURL (repository p) \<Longrightarrow> GetRepoByName X (repository p) = Inl e \<Longrightarrow> r = Inl e"
    and "\<not> looksLikeURL (repository p) \<Longrightarrow> r = Inl e \<Longrightarrow> GetRepoByName X (repository p) = Inl e"
  using assms
  by (auto simp: resolveRepository_def Let_def split: option.splits sum.splits if_splits)

lemma loadChart_failed:
  assumes "loadChart X p w = (Inl e, w')"
  shows "paths w' = paths w \<and>
     (trace w' = trace w @ [EvGetChartByName (chartName p) (Some e)]
      \<or> trace w' = trace w @ [EvGetChartByName (chartName p) None, EvOverrideValues (overrides p) (Some e)])"
  using assms
  by (auto simp: loadChart_def Let_def error_of_def split: sum.splits if_splits)

lemma loadChart_loaded:
  assumes "loadChart X p w = (Inr c, w')"
  shows "paths w' = paths w \<and>
     (trace w' = trace w @ [EvGetChartByName (chartName p) None]
      \<or> trace w' = trace w @ [EvGetChartByName (chartName p) None, EvOverrideValues (overrides p) None])"
  using assms
  by (auto simp: loadChart_def Let_def error_of_def split: sum.splits if_splits)

lemma skipReindex_setFieldsFromRepo [simp]:
  "skipReindex (setFieldsFromRepo repo p) = skipReindex p"
  by (cases repo) (simp_all add: setFieldsFromRepo_def)

text \<open>The six ways through lines 209 to 231.\<close>

lemma uploadPackage_events:
  assumes "uploadPackage X p chart client tmp w = (res, w')"
  obtains
    (package_failed) e where
      "res = Some e" "trace w' = trace w @ [EvCreateChartPackage tmp (Inl e)]" "paths w' = paths w"
  | (upload_failed) f n e where
      "res = Some e" "paths w' = paths w"
      "trace w' = trace w @ [EvCreateChartPackage tmp (Inr f), EvUploadChartPackage n f (Inl e)]"
  | (upload_refused) f n resp e where
      "res = Some e" "paths w' = paths w" "StatusCode resp \<noteq> 201"
      "trace w' = trace w @ [EvCreateChartPackage tmp (Inr f), EvUploadChartPackage n f (Inr resp)]"
  | (reindex_skipped) f n resp where
      "res = None" "paths w' = paths w" "StatusCode resp = 201" "skipReindex p"
      "trace w' = trace w @ [EvCreateChartPackage tmp (Inr f), EvUploadChartPackage n f (Inr resp),
                             EvPrintln ''Done.'']"
  | (reindex_failed) f n resp e where
      "res = Some e" "paths w' = paths w" "StatusCode resp = 201" "\<not> skipReindex p"
      "trace w' = trace w @ [EvCreateChartPackage tmp (Inr f), EvUploadChartPackage n f (Inr resp),
                             EvPrintln ''Done.'', EvReindexArtifactoryRepo (Inl e)]"
  | (reindex_answered) f n resp resp' out where
      "paths w' = paths w" "StatusCode resp = 201" "\<not> skipReindex p"
      "trace w' = trace w @ [EvCreateChartPackage tmp (Inr f), EvUploadChartPackage n f (Inr resp),
                             EvPrintln ''Done.'', EvReindexArtifactoryRepo (Inr resp')] @ map EvPrintln out"
proof (cases "CreateChartPackage X chart tmp")
  case (Inl e)
  with assms package_failed show ?thesis
    by (auto simp: uploadPackage_def Let_def)
next
  case pkg: (Inr f)
  show ?thesis
  proof (cases "UploadChartPackage X client (MetadataName X chart) f")
    case (Inl e)
    with assms pkg upload_failed show ?thesis
      by (auto simp: uploadPackage_def Let_def)
  next
    case up: (Inr resp)
    show ?thesis
    proof (cases "StatusCode resp = 201")
      case False
      from handlePushResponse_refused[OF False] obtain e where
        "handlePushResponse resp (log_event (EvUploadChartPackage (MetadataName X chart) f (Inr resp))
            (log_event (EvCreateChartPackage tmp (Inr f)) w)) =
          (Some e, log_event (EvUploadChartPackage (MetadataName X chart) f (Inr resp))
            (log_event (EvCreateChartPackage tmp (Inr f)) w))"
        by blast
      with assms pkg up False upload_refused[of e resp f "MetadataName X chart"] show ?thesis
        by (auto simp: uploadPackage_def Let_def)
    next
      case ok: True
      show ?thesis
      proof (cases "skipReindex p")
        case True
        with assms pkg up ok reindex_skipped[of resp f "MetadataName X chart"] show ?thesis
          by (auto simp: uploadPackage_def Let_def handlePushResponse_created Println_def)
      next
        case noskip: False
        show ?thesis
        proof (cases "ReindexArtifactoryRepo X client")
          case (Inl e)
          with assms pkg up ok noskip reindex_failed[of e resp f "MetadataName X chart"] show ?thesis
            by (auto simp: uploadPackage_def Let_def handlePushResponse_created Println_def)
        next
          case (Inr resp')
          have "\<exists>out. trace (snd (handleReindexResponse resp' v)) = trace v @ map EvPrintln out
                  \<and> paths (snd (handleReindexResponse resp' v)) = paths v" for v
          proof (cases "Body resp'")
            case (Inl e)
            then show ?thesis by (simp add: handleReindexResponse_def)
          next
            case (Inr b)
            then show ?thesis
              by (cases "StatusCode resp' = 200")
                (auto simp: handleReindexResponse_def Println_def intro: exI[of _ "[b]"] exI[of _ "[]"])
          qed
          note out = this
          let ?w4 = "log_event (EvReindexArtifactoryRepo (Inr resp'))
            (Println ''Done.'' (log_event (EvUploadChartPackage (MetadataName X chart) f (Inr resp))
              (log_event (EvCreateChartPackage tmp (Inr f)) w)))"
          have "uploadPackage X p chart client tmp w = handleReindexResponse resp' ?w4"
            using pkg up ok noskip Inr
            by (simp add: uploadPackage_def Let_def handlePushResponse_created)
          with assms have w': "w' = snd (handleReindexResponse resp' ?w4)" by simp
          from out[of ?w4] obtain out where
            "trace w' = trace ?w4 @ map EvPrintln out" "paths w' = paths ?w4"
            unfolding w' by blast
          then have
            "trace w' = trace w @ [EvCreateChartPackage tmp (Inr f),
               EvUploadChartPackage (MetadataName X chart) f (Inr resp),
               EvPrintln ''Done.'', EvReindexArtifactoryRepo (Inr resp')] @ map EvPrintln out"
            "paths w' = paths w"
            by (simp_all add: Println_def)
          with ok noskip reindex_answered show ?thesis by blast
        qed
      qed
    qed
  qed
qed

text \<open>The five ways through \<^verbatim>\<open>push\<close>, with the events of each.\<close>

lemma push_events:
  fixes X :: "('c, 'k) collaborators"
  obtains
    (resolve_failed) e w where
      "push X p (start ps) = (Some e, w)" "paths w = ps"
      "trace w = (if looksLikeURL (repository p) then []
                  else [EvGetRepoByName (repository p) (GetRepoByName X (repository p))])"
      "\<not> looksLikeURL (repository p) \<Longrightarrow> GetRepoByName X (repository p) = Inl e"
  | (chart_failed) e w C where
      "push X p (start ps) = (Some e, w)" "paths w = ps"
      "trace w = (if looksLikeURL (repository p) then []
                  else [EvGetRepoByName (repository p) (GetRepoByName X (repository p))]) @ C"
      "C = [EvGetChartByName (chartName p) (Some e)]
       \<or> C = [EvGetChartByName (chartName p) None, EvOverrideValues (overrides p) (Some e)]"
  | (client_failed) e w C opts where
      "push X p (start ps) = (Some e, w)" "paths w = ps"
      "trace w = (if looksLikeURL (repository p) then []
                  else [EvGetRepoByName (repository p) (GetRepoByName X (repository p))]) @ C
                 @ [EvNewClient opts (Some e)]"
      "C = [EvGetChartByName (chartName p) None]
       \<or> C = [EvGetChartByName (chartName p) None, EvOverrideValues (overrides p) None]"
  | (tempdir_failed) e w C opts where
      "push X p (start ps) = (Some e, w)" "paths w = ps"
      "trace w = (if looksLikeURL (repository p) then []
                  else [EvGetRepoByName (repository p) (GetRepoByName X (repository p))]) @ C
                 @ [EvNewClient opts None, EvTempDir (Inl e)]"
      "C = [EvGetChartByName (chartName p) None]
       \<or> C = [EvGetChartByName (chartName p) None, EvOverrideValues (overrides p) None]"
  | (uploading) res w4 w5 C opts tmp p' and chart :: 'c and client :: 'k where
      "push X p (start ps) = (res, RemoveAll tmp w5)"
      "uploadPackage X p' chart client tmp w4 = (res, w5)"
      "skipReindex p' = skipReindex p" "paths w4 = insert tmp ps"
      "trace w4 = (if looksLikeURL (repository p) then []
                   else [EvGetRepoByName (repository p) (GetRepoByName X (repository p))]) @ C
                  @ [EvNewClient opts None, EvTempDir (Inr tmp)]"
      "C = [EvGetChartByName (chartName p) None]
       \<or> C = [EvGetChartByName (chartName p) None, EvOverrideValues (overrides p) None]"
proof -
  let ?R = "if looksLikeURL (repository p) then []
            else [EvGetRepoByName (repository p) (GetRepoByName X (repository p))]"
  obtain r w1 where res: "resolveRepository X p (start ps) = (r, w1)"
    by (cases "resolveRepository X p (start ps)")
  note R = resolveRepository_events[OF res]
  show thesis
  proof (cases r)
    case (Inl e)
    with res have "push X p (start ps) = (Some e, w1)" by (simp add: push_def)
    then show thesis
      by (rule resolve_failed) (use R(1,2) R(4)[OF _ Inl] in simp_all)
  next
    case repo: (Inr repo)
    obtain c w2 where ld: "loadChart X p w1 = (c, w2)" by (cases "loadChart X p w1")
    show thesis
    proof (cases c)
      case (Inl e)
      with res repo ld have "push X p (start ps) = (Some e, w2)" by (simp add: push_def)
      moreover from loadChart_failed[OF ld[unfolded Inl]] R(1,2)
      have "paths w2 = ps" and
        "\<exists>C. trace w2 = ?R @ C \<and> (C = [EvGetChartByName (chartName p) (Some e)]
           \<or> C = [EvGetChartByName (chartName p) None, EvOverrideValues (overrides p) (Some e)])"
        by auto
      ultimately show thesis using chart_failed by metis
    next
      case chart: (Inr chart)
      from loadChart_loaded[OF ld[unfolded chart]] R(1,2)
      obtain C where C: "paths w2 = ps" "trace w2 = ?R @ C"
        "C = [EvGetChartByName (chartName p) None]
           \<or> C = [EvGetChartByName (chartName p) None, EvOverrideValues (overrides p) None]"
        by auto
      let ?p' = "setFieldsFromRepo repo p"
      let ?opts = "newClientOptions ?p'"
      show thesis
      proof (cases "NewClient X ?opts")
        case (Inl e)
        with res repo ld chart
        have "push X p (start ps) = (Some e, log_event (EvNewClient ?opts (Some e)) w2)"
          by (simp add: push_def Let_def error_of_def)
        then show thesis
          by (rule client_failed[where C = C]) (simp_all add: C)
      next
        case client: (Inr client)
        let ?w3 = "log_event (EvNewClient ?opts None) w2"
        show thesis
        proof (cases "TempDir X")
          case (Inl e)
          with res repo ld chart client
          have "push X p (start ps) = (Some e, log_event (EvTempDir (Inl e)) ?w3)"
            by (simp add: push_def Let_def error_of_def)
          then show thesis
            by (rule tempdir_failed[where C = C]) (simp_all add: C)
        next
          case (Inr tmp)
          let ?w4 = "log_event (EvTempDir (Inr tmp)) ?w3"
          let ?w4' = "?w4\<lparr>paths := insert tmp (paths ?w4)\<rparr>"
          obtain out w5 where up: "uploadPackage X ?p' chart client tmp ?w4' = (out, w5)"
            by (cases "uploadPackage X ?p' chart client tmp ?w4'")
          with res repo ld chart client Inr
          have "push X p (start ps) = (out, RemoveAll tmp w5)"
            by (simp add: push_def Let_def error_of_def)
          then show thesis
            by (rule uploading[OF _ up, where C = C]) (simp_all add: C)
        qed
      qed
    qed
  qed
qed

text \<open>What the six string fields end up as, after the environment and the stored
  entry: the flag when it is not empty, else the variable when it is set and not
  empty, else the stored value (\<^verbatim>\<open>path\<close> has no stored value).\<close>

lemma string_fields_precedence:
  "username (setFieldsFromRepo (Some r) (setFieldsFromEnv env p)) =
     (if username p \<noteq> [] then username p
      else case env ''HELM_REPO_USERNAME'' of
             Some v \<Rightarrow> (if v \<noteq> [] then v else Username r) | None \<Rightarrow> Username r)"
  "password (setFieldsFromRepo (Some r) (setFieldsFromEnv env p)) =
     (if password p \<noteq> [] then password p
      else case env ''HELM_REPO_PASSWORD'' of
             Some v \<Rightarrow> (if v \<noteq> [] then v else Password r) | None \<Rightarrow> Password r)"
  "caFile (setFieldsFromRepo (Some r) (setFieldsFromEnv env p)) =
     (if caFile p \<noteq> [] then caFile p
      else case env ''HELM_REPO_CA_FILE'' of
             Some v \<Rightarrow> (if v \<noteq> [] then v else CAFile r) | None \<Rightarrow> CAFile r)"
  "certFile (setFieldsFromRepo (Some r) (setFieldsFromEnv env p)) =
     (if certFile p \<noteq> [] then certFile p
      else case env ''HELM_REPO_CERT_FILE'' of
             Some v \<Rightarrow> (if v \<noteq> [] then v else CertFile r) | None \<Rightarrow> CertFile r)"
  "keyFile (setFieldsFromRepo (Some r) (setFieldsFromEnv env p)) =
     (if keyFile p \<noteq> [] then keyFile p
      else case env ''HELM_REPO_KEY_FILE'' of
             Some v \<Rightarrow> (if v \<noteq> [] then v else KeyFile r) | None \<Rightarrow> KeyFile r)"
  "path (setFieldsFromRepo repo (setFieldsFromEnv env p)) =
     (if path p \<noteq> [] then path p
      else case env ''HELM_REPO_PATH'' of Some v \<Rightarrow> v | None \<Rightarrow> [])"
  by (auto simp: setFieldsFromRepo_def setFieldsFromEnv_def string_from_env_def
      split: option.splits)

section \<open>The claims\<close>

text \<open>
  Claim C1. Flag, then environment, then stored entry is claimed for every
  overridable field. For the two boolean fields the code lets the environment
  variable win over the flag: with \<^verbatim>\<open>--insecure\<close> on the command line and
  \<^verbatim>\<open>HELM_REPO_INSECURE=false\<close> in the environment, certificate verification stays on,
  and the client is built with \<^verbatim>\<open>InsecureSkipVerify(false)\<close>. The string fields keep
  the flag, as the last line shows for the user name.
\<close>

theorem environment_overrides_insecure_flag:
  "insecureSkipVerify insecure_flag = True
   \<and> insecureSkipVerify (setFieldsFromEnv insecure_env insecure_flag) = False
   \<and> EvNewClient
        \<lparr>optURL = ''https://artifactory/repo'', optPath = [], optUsername = [], optPassword = [],
         optAccessToken = [], optApiKey = [], optCAFile = [], optCertFile = [], optKeyFile = [],
         optInsecureSkipVerify = False\<rparr> None
       \<in> set (trace (snd (RunE demo_collaborators insecure_env insecure_flag
                              [''mychart'', ''https://artifactory/repo''] (start {}))))
   \<and> username (setFieldsFromEnv [''HELM_REPO_USERNAME'' \<mapsto> ''env-user'']
                  (flag_defaults\<lparr>username := ''flag-user''\<rparr>)) = ''flag-user''"
proof -
  have 1: "insecureSkipVerify insecure_flag = True"
    by (simp add: insecure_flag_def)
  have 2: "insecureSkipVerify (setFieldsFromEnv insecure_env insecure_flag) = False"
    by (simp add: setFieldsFromEnv_def bool_from_env_def insecure_env_def ParseBool_def)
  have 3: "EvNewClient
        \<lparr>optURL = ''https://artifactory/repo'', optPath = [], optUsername = [], optPassword = [],
         optAccessToken = [], optApiKey = [], optCAFile = [], optCertFile = [], optKeyFile = [],
         optInsecureSkipVerify = False\<rparr> None
       \<in> set (trace (snd (RunE demo_collaborators insecure_env insecure_flag
                              [''mychart'', ''https://artifactory/repo''] (start {}))))"
    by code_simp
  have 4: "username (setFieldsFromEnv [''HELM_REPO_USERNAME'' \<mapsto> ''env-user'']
                  (flag_defaults\<lparr>username := ''flag-user''\<rparr>)) = ''flag-user''"
    by (simp add: setFieldsFromEnv_def string_from_env_def)
  from 1 2 3 4 show ?thesis by blast
qed

text \<open>
  Claim C2. When the body of the response can be read, the upload handler succeeds
  exactly at status 201 and the reindex handler exactly at status 200, and at any
  other status the handler returns what the error decoder makes of the body, which
  is an error. When reading the body fails, the reindex handler returns the read
  error whatever the status, and the upload handler returns it unless the status
  is 201, where it does not read the body.
\<close>

theorem handlers_classify_readable_body:
  "(Body resp = Inr b \<longrightarrow>
      (fst (handlePushResponse resp w) = None \<longleftrightarrow> StatusCode resp = 201)
    \<and> (StatusCode resp \<noteq> 201 \<longrightarrow>
          fst (handlePushResponse resp w) = getArtifactoryError b (StatusCode resp))
    \<and> (fst (handleReindexResponse resp w) = None \<longleftrightarrow> StatusCode resp = 200)
    \<and> (StatusCode resp \<noteq> 200 \<longrightarrow>
          fst (handleReindexResponse resp w) = getArtifactoryError b (StatusCode resp))
    \<and> getArtifactoryError b (StatusCode resp) \<noteq> None)
   \<and> (Body resp = Inl err \<longrightarrow>
        fst (handleReindexResponse resp w) = Some err
      \<and> (fst (handlePushResponse resp w) = (if StatusCode resp = 201 then None else Some err)))"
proof -
  have ne: "getArtifactoryError b c \<noteq> None" for c
    by (cases "json_Unmarshal b") (simp add: getArtifactoryError_def)
  show ?thesis
    using ne[of "StatusCode resp"]
    by (auto simp: handlePushResponse_def handleReindexResponse_def)
qed

theorem handlers_classify_readable_body_witness:
  "Body conflict = Inr conflict_body
   \<and> fst (handlePushResponse conflict (start {})) = Some (ErrorString ''409: conflict'')
   \<and> fst (handleReindexResponse conflict (start {})) = Some (ErrorString ''409: conflict'')
   \<and> Body created = Inr []
   \<and> fst (handlePushResponse created (start {})) = None
   \<and> Body broken_body = Inl (ErrorString ''unexpected EOF'')
   \<and> fst (handleReindexResponse broken_body (start {})) = Some (ErrorString ''unexpected EOF'')"
proof -
  have b: "Body conflict = Inr conflict_body" "StatusCode conflict = 409"
    by (simp_all add: conflict_def)
  have c: "Body created = Inr []" "StatusCode created = 201"
    by (simp_all add: created_def)
  have k: "Body broken_body = Inl (ErrorString ''unexpected EOF'')"
    by (simp add: broken_body_def)
  have g: "getArtifactoryError conflict_body 409 = Some (ErrorString ''409: conflict'')"
    by code_simp
  from handlers_classify_readable_body[of conflict conflict_body "start {}"] b g
  have 1: "fst (handlePushResponse conflict (start {})) = Some (ErrorString ''409: conflict'')"
    "fst (handleReindexResponse conflict (start {})) = Some (ErrorString ''409: conflict'')"
    by simp_all
  from handlers_classify_readable_body[of created "[]" "start {}"] c
  have 2: "fst (handlePushResponse created (start {})) = None"
    by simp
  from handlers_classify_readable_body[of broken_body _ "start {}" "ErrorString ''unexpected EOF''"] k
  have 3: "fst (handleReindexResponse broken_body (start {})) = Some (ErrorString ''unexpected EOF'')"
    by simp
  from b(1) 1 c(1) 2 k 3 show ?thesis by blast
qed

text \<open>As the claim is worded, for every response: a reindex response with status 200
  whose body cannot be read is a failure.\<close>

theorem reindex_200_unreadable_body_fails:
  "StatusCode broken_body = 200
   \<and> fst (handleReindexResponse broken_body (start {})) = Some (ErrorString ''unexpected EOF'')"
  by (simp add: handleReindexResponse_def broken_body_def)

text \<open>
  Claim C3. The reindex request is sent exactly when the upload came back without
  a transport error and with status 201, and \<^verbatim>\<open>skipReindex\<close> is false. When
  \<^verbatim>\<open>skipReindex\<close> is true and the upload succeeded, \<^verbatim>\<open>push\<close> returns \<^verbatim>\<open>nil\<close> and the
  confirmation \<^verbatim>\<open>Done.\<close> is the last thing it did before the deferred removal of
  the scratch directory.
\<close>

theorem reindex_iff_upload_ok_and_not_skipped:
  "((\<exists>r. EvReindexArtifactoryRepo r \<in> set (trace (snd (push X p (start ps)))))
      \<longleftrightarrow> (\<not> skipReindex p \<and>
           (\<exists>n f resp. EvUploadChartPackage n f (Inr resp) \<in> set (trace (snd (push X p (start ps))))
                     \<and> StatusCode resp = 201)))
   \<and> (skipReindex p \<and>
        (\<exists>n f resp. EvUploadChartPackage n f (Inr resp) \<in> set (trace (snd (push X p (start ps))))
                     \<and> StatusCode resp = 201)
      \<longrightarrow> fst (push X p (start ps)) = None
          \<and> (\<exists>pre tmp. trace (snd (push X p (start ps))) = pre @ [EvPrintln ''Done.'', EvRemoveAll tmp]))"
proof (cases rule: push_events[of X p ps])
  case (uploading res w4 w5 C opts tmp p' chart client)
  from uploading(2) show ?thesis
    by (cases rule: uploadPackage_events) (use uploading in \<open>auto split: if_splits\<close>)
qed (auto split: if_splits)

theorem reindex_iff_upload_ok_and_not_skipped_witness:
  "demo_upload \<in> set (trace (snd (push demo_collaborators demo_cmd (start {}))))
   \<and> StatusCode created = 201
   \<and> \<not> skipReindex demo_cmd
   \<and> (\<exists>r. EvReindexArtifactoryRepo r \<in> set (trace (snd (push demo_collaborators demo_cmd (start {})))))
   \<and> demo_upload \<in> set (trace (snd (push demo_collaborators (demo_cmd\<lparr>skipReindex := True\<rparr>) (start {}))))
   \<and> skipReindex (demo_cmd\<lparr>skipReindex := True\<rparr>)
   \<and> \<not> (\<exists>r. EvReindexArtifactoryRepo r
            \<in> set (trace (snd (push demo_collaborators (demo_cmd\<lparr>skipReindex := True\<rparr>) (start {})))))
   \<and> fst (push demo_collaborators (demo_cmd\<lparr>skipReindex := True\<rparr>) (start {})) = None
   \<and> (\<exists>pre tmp. trace (snd (push demo_collaborators (demo_cmd\<lparr>skipReindex := True\<rparr>) (start {})))
          = pre @ [EvPrintln ''Done.'', EvRemoveAll tmp])"
proof -
  let ?skip = "demo_cmd\<lparr>skipReindex := True\<rparr>"
  have u1: "demo_upload \<in> set (trace (snd (push demo_collaborators demo_cmd (start {}))))"
    by code_simp
  have u2: "demo_upload \<in> set (trace (snd (push demo_collaborators ?skip (start {}))))"
    by code_simp
  have c: "StatusCode created = 201" by (simp add: created_def)
  have n: "\<not> skipReindex demo_cmd" by (simp add: demo_cmd_def flag_defaults_def)
  have s: "skipReindex ?skip" by simp
  have e1: "\<exists>n f resp. EvUploadChartPackage n f (Inr resp)
              \<in> set (trace (snd (push demo_collaborators demo_cmd (start {})))) \<and> StatusCode resp = 201"
    using u1 c unfolding demo_upload_def by blast
  have e2: "\<exists>n f resp. EvUploadChartPackage n f (Inr resp)
              \<in> set (trace (snd (push demo_collaborators ?skip (start {})))) \<and> StatusCode resp = 201"
    using u2 c unfolding demo_upload_def by blast
  note T1 = reindex_iff_upload_ok_and_not_skipped[of demo_collaborators demo_cmd "{}"]
  note T2 = reindex_iff_upload_ok_and_not_skipped[of demo_collaborators ?skip "{}"]
  from T1 n e1
  have a: "\<exists>r. EvReindexArtifactoryRepo r \<in> set (trace (snd (push demo_collaborators demo_cmd (start {}))))"
    by blast
  from T2 s
  have b: "\<not> (\<exists>r. EvReindexArtifactoryRepo r \<in> set (trace (snd (push demo_collaborators ?skip (start {})))))"
    by blast
  from T2 s e2
  have d: "fst (push demo_collaborators ?skip (start {})) = None
     \<and> (\<exists>pre tmp. trace (snd (push demo_collaborators ?skip (start {})))
          = pre @ [EvPrintln ''Done.'', EvRemoveAll tmp])"
    by blast
  from u1 c n a u2 s b d show ?thesis by blast
qed

text \<open>
  Claim C4. An argument that starts with \<^verbatim>\<open>http://\<close> or \<^verbatim>\<open>https://\<close> is never
  looked up in the repository list. Any other argument is looked up first, and
  when the lookup fails \<^verbatim>\<open>push\<close> returns its error and does nothing else. With the
  lookup as the spec describes it, resolution fails exactly when the list has no
  entry of that name, with \<^verbatim>\<open>UnknownRepository\<close>.
\<close>

theorem url_argument_skips_lookup:
  "(looksLikeURL (repository p) \<longrightarrow>
      (\<forall>n r. EvGetRepoByName n r \<notin> set (trace (snd (push X p (start ps))))))
   \<and> (\<not> looksLikeURL (repository p) \<longrightarrow>
        (\<exists>rest. trace (snd (push X p (start ps)))
                 = EvGetRepoByName (repository p) (GetRepoByName X (repository p)) # rest)
      \<and> (\<forall>e. GetRepoByName X (repository p) = Inl e \<longrightarrow>
            fst (push X p (start ps)) = Some e
          \<and> trace (snd (push X p (start ps))) = [EvGetRepoByName (repository p) (Inl e)])
      \<and> (GetRepoByName X = GetRepoByName_store store \<longrightarrow>
            ((\<exists>e. fst (resolveRepository X p (start ps)) = Inl e) \<longleftrightarrow> store (repository p) = None)
          \<and> (store (repository p) = None \<longrightarrow>
                fst (push X p (start ps)) = Some (UnknownRepository (repository p)))))"
proof -
  have url: "\<forall>n r. EvGetRepoByName n r \<notin> set (trace (snd (push X p (start ps))))"
    if "looksLikeURL (repository p)"
  proof (cases rule: push_events[of X p ps])
    case (uploading res w4 w5 C opts tmp p' chart client)
    from uploading(2) show ?thesis
      by (cases rule: uploadPackage_events) (use uploading that in \<open>auto split: if_splits\<close>)
  qed (use that in \<open>auto split: if_splits\<close>)
  have first: "\<exists>rest. trace (snd (push X p (start ps)))
                 = EvGetRepoByName (repository p) (GetRepoByName X (repository p)) # rest"
    if "\<not> looksLikeURL (repository p)"
  proof (cases rule: push_events[of X p ps])
    case (uploading res w4 w5 C opts tmp p' chart client)
    from uploading(2) show ?thesis
      by (cases rule: uploadPackage_events) (use uploading that in \<open>auto split: if_splits\<close>)
  qed (use that in \<open>auto split: if_splits\<close>)
  have stop: "push X p (start ps)
       = (Some e, log_event (EvGetRepoByName (repository p) (Inl e)) (start ps))"
    if "\<not> looksLikeURL (repository p)" "GetRepoByName X (repository p) = Inl e" for e
    using that by (simp add: push_def resolveRepository_def Let_def)
  have fails: "(\<exists>e. fst (resolveRepository X p (start ps)) = Inl e) \<longleftrightarrow> store (repository p) = None"
    if "\<not> looksLikeURL (repository p)" "GetRepoByName X = GetRepoByName_store store"
    using that
    by (auto simp: resolveRepository_def GetRepoByName_store_def Let_def split: option.splits)
  have unknown: "fst (push X p (start ps)) = Some (UnknownRepository (repository p))"
    if "\<not> looksLikeURL (repository p)" "GetRepoByName X = GetRepoByName_store store"
      "store (repository p) = None"
    using that stop[of "UnknownRepository (repository p)"]
    by (simp add: GetRepoByName_store_def)
  from url first stop fails unknown show ?thesis by simp
qed

theorem url_argument_skips_lookup_witness:
  "looksLikeURL (repository demo_cmd)
   \<and> \<not> (\<exists>n r. EvGetRepoByName n r \<in> set (trace (snd (push demo_collaborators demo_cmd (start {})))))
   \<and> \<not> looksLikeURL (repository demo_named)
   \<and> GetRepoByName demo_collaborators = GetRepoByName_store Map.empty
   \<and> Map.empty (repository demo_named) = None
   \<and> fst (push demo_collaborators demo_named (start {})) = Some (UnknownRepository ''my-helm-repo'')
   \<and> trace (snd (push demo_collaborators demo_named (start {})))
        = [EvGetRepoByName ''my-helm-repo'' (Inl (UnknownRepository ''my-helm-repo''))]
   \<and> [''my-helm-repo'' \<mapsto> stored_repo] (repository demo_named) = Some stored_repo
   \<and> \<not> (\<exists>e. fst (resolveRepository
              (demo_collaborators\<lparr>GetRepoByName := GetRepoByName_store [''my-helm-repo'' \<mapsto> stored_repo]\<rparr>)
              demo_named (start {})) = Inl e)
   \<and> (\<exists>rest. trace (snd (push
              (demo_collaborators\<lparr>GetRepoByName := GetRepoByName_store [''my-helm-repo'' \<mapsto> stored_repo]\<rparr>)
              demo_named (start {})))
          = EvGetRepoByName ''my-helm-repo'' (Inr stored_repo) # rest)"
proof -
  let ?S = "[''my-helm-repo'' \<mapsto> stored_repo]"
  let ?Y = "demo_collaborators\<lparr>GetRepoByName := GetRepoByName_store ?S\<rparr>"
  have u: "looksLikeURL (repository demo_cmd)"
    by (simp add: demo_cmd_def flag_defaults_def looksLikeURL_def)
  have n: "\<not> looksLikeURL (repository demo_named)" "repository demo_named = ''my-helm-repo''"
    by (simp_all add: demo_named_def demo_cmd_def flag_defaults_def looksLikeURL_def)
  have d: "GetRepoByName demo_collaborators = GetRepoByName_store Map.empty"
    by (simp add: demo_collaborators_def)
  have m: "GetRepoByName demo_collaborators ''my-helm-repo'' = Inl (UnknownRepository ''my-helm-repo'')"
    by (simp add: d GetRepoByName_store_def)
  have s: "?S (repository demo_named) = Some stored_repo"
    by (simp add: n)
  have y: "GetRepoByName ?Y = GetRepoByName_store ?S"
    "GetRepoByName ?Y ''my-helm-repo'' = Inr stored_repo"
    by (simp_all add: GetRepoByName_store_def)
  note A = url_argument_skips_lookup[of demo_cmd demo_collaborators "{}" Map.empty]
  note B = url_argument_skips_lookup[of demo_named demo_collaborators "{}" Map.empty]
  note C = url_argument_skips_lookup[of demo_named ?Y "{}" ?S]
  from A u have 1: "\<not> (\<exists>n r. EvGetRepoByName n r \<in> set (trace (snd (push demo_collaborators demo_cmd (start {})))))"
    by blast
  from B n m have 2:
    "fst (push demo_collaborators demo_named (start {})) = Some (UnknownRepository ''my-helm-repo'')"
    "trace (snd (push demo_collaborators demo_named (start {})))
        = [EvGetRepoByName ''my-helm-repo'' (Inl (UnknownRepository ''my-helm-repo''))]"
    by simp_all
  from C n(1) y(1) s have 3: "\<not> (\<exists>e. fst (resolveRepository ?Y demo_named (start {})) = Inl e)"
    by simp
  from C n y(2) have 4: "\<exists>rest. trace (snd (push ?Y demo_named (start {})))
          = EvGetRepoByName ''my-helm-repo'' (Inr stored_repo) # rest"
    by simp
  from u 1 n(1) d 2 s 3 4 show ?thesis by simp
qed

text \<open>
  Claim C5. The body \<^verbatim>\<open>{"errors":[{"status":409,"message":"conflict"}]}\<close> with the
  HTTP status code 409 decodes to the error whose message is exactly
  \<^verbatim>\<open>409: conflict\<close>.
\<close>

theorem decode_conflict_409:
  \<open>getArtifactoryError ''{"errors":[{"status":409,"message":"conflict"}]}'' 409
     = Some (ErrorString ''409: conflict'')\<close>
  by code_simp

theorem decode_conflict_409_witness:
  \<open>json_Unmarshal ''{"errors":[{"status":409,"message":"conflict"}]}''
       = (\<lparr>Errors = [\<lparr>Status = 409, Message = ''conflict''\<rparr>]\<rparr>, None)
   \<and> the (getArtifactoryError ''{"errors":[{"status":409,"message":"conflict"}]}'' 409)
       = ErrorString ''409: conflict''\<close>
proof -
  have \<open>json_Unmarshal ''{"errors":[{"status":409,"message":"conflict"}]}''
       = (\<lparr>Errors = [\<lparr>Status = 409, Message = ''conflict''\<rparr>]\<rparr>, None)\<close>
    by code_simp
  with decode_conflict_409 show ?thesis by simp
qed

text \<open>
  Claim C6. The decoder produces the generic message, the decimal status code, the
  fixed text and the raw body, exactly for the bodies that do not decode into an
  envelope: a body that is not JSON, whose value is not an object, that has an
  \<^verbatim>\<open>errors\<close> member of another shape than a list of records, a \<^verbatim>\<open>status\<close> that is not
  an integer or a \<^verbatim>\<open>message\<close> that is not a string, or whose last \<^verbatim>\<open>errors\<close> member
  is missing, \<^verbatim>\<open>null\<close> or empty. The message then contains the code and the body.
  Every other body, also one whose records are \<^verbatim>\<open>null\<close> or lack the two fields,
  decodes, and gets the code and the message of the first record.
\<close>

theorem generic_message_unless_envelope:
  "(\<not> decodes_as_envelope b \<longrightarrow>
      (\<exists>msg. getArtifactoryError b code = Some (ErrorString msg)
         \<and> msg = fmt_d code @ '': could not properly parse response JSON: '' @ b
         \<and> sublist (fmt_d code) msg \<and> sublist b msg))
   \<and> (decodes_as_envelope b \<longrightarrow>
        (\<exists>r. json_Unmarshal b = (r, None) \<and> Errors r \<noteq> []
           \<and> getArtifactoryError b code
               = Some (ErrorString (fmt_d code @ '': '' @ Message (Errors r ! 0)))))"
proof -
  obtain r err where u: "json_Unmarshal b = (r, err)" by (cases "json_Unmarshal b")
  note E = json_Unmarshal_envelope[OF u]
  let ?msg = "fmt_d code @ '': could not properly parse response JSON: '' @ b"
  have s1: "sublist (fmt_d code) ?msg"
    using sublist_appendI[of "fmt_d code" "[]" "'': could not properly parse response JSON: '' @ b"]
    by simp
  have s2: "sublist b ?msg"
    using sublist_appendI[of b "fmt_d code @ '': could not properly parse response JSON: ''" "[]"]
    by simp
  have 1: "getArtifactoryError b code = Some (ErrorString ?msg)" if "\<not> decodes_as_envelope b"
    using that E u by (auto simp: getArtifactoryError_def)
  have 2: "err = None \<and> Errors r \<noteq> []
      \<and> getArtifactoryError b code = Some (ErrorString (fmt_d code @ '': '' @ Message (Errors r ! 0)))"
    if "decodes_as_envelope b"
    using that E u by (auto simp: getArtifactoryError_def)
  from 1 2 s1 s2 u show ?thesis by blast
qed

theorem generic_message_unless_envelope_witness:
  \<open>\<not> decodes_as_envelope ''<html>Bad Gateway</html>''
   \<and> getArtifactoryError ''<html>Bad Gateway</html>'' 500
       = Some (ErrorString ''500: could not properly parse response JSON: <html>Bad Gateway</html>'')
   \<and> sublist ''500'' ''500: could not properly parse response JSON: <html>Bad Gateway</html>''
   \<and> sublist ''<html>Bad Gateway</html>'' ''500: could not properly parse response JSON: <html>Bad Gateway</html>''
   \<and> \<not> decodes_as_envelope ''{"errors":[{"status":"409","message":"m"}]}''
   \<and> getArtifactoryError ''{"errors":[{"status":"409","message":"m"}]}'' 500
       = Some (ErrorString
           ''500: could not properly parse response JSON: {"errors":[{"status":"409","message":"m"}]}'')
   \<and> decodes_as_envelope ''{"errors":[{"message":"m"}]}''
   \<and> getArtifactoryError ''{"errors":[{"message":"m"}]}'' 500 = Some (ErrorString ''500: m'')\<close>
proof -
  have d: "fmt_d 500 = ''500''" by code_simp
  have a: \<open>\<not> decodes_as_envelope ''<html>Bad Gateway</html>''\<close> by code_simp
  have b: \<open>\<not> decodes_as_envelope ''{"errors":[{"status":"409","message":"m"}]}''\<close> by code_simp
  have c: \<open>decodes_as_envelope ''{"errors":[{"message":"m"}]}''\<close> by code_simp
  have u: \<open>json_Unmarshal ''{"errors":[{"message":"m"}]}'' = (\<lparr>Errors = [\<lparr>Status = 0, Message = ''m''\<rparr>]\<rparr>, None)\<close>
    by code_simp
  from generic_message_unless_envelope[of \<open>''<html>Bad Gateway</html>''\<close> 500] a d
  have 1: \<open>getArtifactoryError ''<html>Bad Gateway</html>'' 500
       = Some (ErrorString ''500: could not properly parse response JSON: <html>Bad Gateway</html>'')
     \<and> sublist ''500'' ''500: could not properly parse response JSON: <html>Bad Gateway</html>''
     \<and> sublist ''<html>Bad Gateway</html>'' ''500: could not properly parse response JSON: <html>Bad Gateway</html>''\<close>
    by simp
  from generic_message_unless_envelope[of \<open>''{"errors":[{"status":"409","message":"m"}]}''\<close> 500] b d
  have 2: \<open>getArtifactoryError ''{"errors":[{"status":"409","message":"m"}]}'' 500
       = Some (ErrorString
           ''500: could not properly parse response JSON: {"errors":[{"status":"409","message":"m"}]}'')\<close>
    by simp
  from generic_message_unless_envelope[of \<open>''{"errors":[{"message":"m"}]}''\<close> 500] c d u
  have 3: \<open>getArtifactoryError ''{"errors":[{"message":"m"}]}'' 500 = Some (ErrorString ''500: m'')\<close>
    by simp
  from a b c 1 2 3 show ?thesis by blast
qed

text \<open>As the claim is worded, for any body that holds no list of records with a status
  and a message: the only element of the list below is \<^verbatim>\<open>null\<close>, and the message is
  not the generic one and does not contain the body.\<close>

theorem null_record_gets_short_message:
  \<open>parse_json ''{"errors":[null]}'' = Some (JObject [(''errors'', JArray [JNull])])
   \<and> getArtifactoryError ''{"errors":[null]}'' 500 = Some (ErrorString ''500: '')
   \<and> \<not> sublist ''{"errors":[null]}'' ''500: ''\<close>
proof -
  have 1: \<open>parse_json ''{"errors":[null]}'' = Some (JObject [(''errors'', JArray [JNull])])\<close>
    by code_simp
  have 2: \<open>getArtifactoryError ''{"errors":[null]}'' 500 = Some (ErrorString ''500: '')\<close>
    by code_simp
  have 3: \<open>\<not> sublist ''{"errors":[null]}'' ''500: ''\<close>
    using sublist_length_le[of \<open>''{"errors":[null]}''\<close> \<open>''500: ''\<close>] by auto
  from 1 2 3 show ?thesis by blast
qed

text \<open>
  Claim C7. When the value overrides cannot be applied or the chart cannot be
  packaged, \<^verbatim>\<open>push\<close> returns that error and has made no network call: neither the
  upload nor the reindex request is among its events.
\<close>

theorem no_upload_after_override_or_packaging_failure:
  assumes "EvOverrideValues ovs (Some e) \<in> set (trace (snd (push X p (start ps))))
         \<or> EvCreateChartPackage d (Inl e) \<in> set (trace (snd (push X p (start ps))))"
  shows "fst (push X p (start ps)) = Some e
       \<and> (\<forall>ev \<in> set (trace (snd (push X p (start ps)))). \<not> is_network ev)"
  using assms
proof (cases rule: push_events[of X p ps])
  case (uploading res w4 w5 C opts tmp p' chart client)
  from uploading(2) show ?thesis
    by (cases rule: uploadPackage_events) (use uploading assms in \<open>auto simp: is_network_def split: if_splits\<close>)
qed (auto simp: is_network_def split: if_splits)

theorem no_upload_after_override_or_packaging_failure_witness:
  "EvOverrideValues [''image.tag=1.2.3''] (Some bad_override)
      \<in> set (trace (snd (push override_fails demo_set (start {}))))
   \<and> fst (push override_fails demo_set (start {})) = Some bad_override
   \<and> list_all (\<lambda>ev. \<not> is_network ev) (trace (snd (push override_fails demo_set (start {}))))
   \<and> EvCreateChartPackage ''/tmp/helm-push-artifactory-1'' (Inl bad_package)
      \<in> set (trace (snd (push packaging_fails demo_cmd (start {}))))
   \<and> fst (push packaging_fails demo_cmd (start {})) = Some bad_package
   \<and> list_all (\<lambda>ev. \<not> is_network ev) (trace (snd (push packaging_fails demo_cmd (start {}))))"
proof -
  have h1: "EvOverrideValues [''image.tag=1.2.3''] (Some bad_override)
      \<in> set (trace (snd (push override_fails demo_set (start {}))))"
    by code_simp
  have h2: "EvCreateChartPackage ''/tmp/helm-push-artifactory-1'' (Inl bad_package)
      \<in> set (trace (snd (push packaging_fails demo_cmd (start {}))))"
    by code_simp
  from no_upload_after_override_or_packaging_failure[OF disjI1, OF h1]
       no_upload_after_override_or_packaging_failure[OF disjI2, OF h2] h1 h2
  show ?thesis by (simp add: list_all_iff)
qed



text \<open>
  Claim C9. For every body and every status code the decoder returns an error,
  never \<^verbatim>\<open>nil\<close>, and the message starts with the decimal status code (\<open>fmt_d\<close>, see
  \<open>fmt_d_decimal\<close>) followed by a colon and a space, whether the body is an error
  envelope or not.
\<close>

theorem decoder_always_fails_with_code_prefix:
  "\<exists>rest. getArtifactoryError b code = Some (ErrorString (fmt_d code @ '': '' @ rest))"
  by (cases "json_Unmarshal b") (simp add: getArtifactoryError_def)

theorem decoder_always_fails_with_code_prefix_witness:
  "\<exists>rest. getArtifactoryError ''Bad Gateway'' 502 = Some (ErrorString (''502: '' @ rest))"
proof -
  have "fmt_d 502 = ''502''" by code_simp
  with decoder_always_fails_with_code_prefix[of "''Bad Gateway''" 502] show ?thesis by simp
qed

text \<open>
  Claim C10. When the body decodes into an envelope whose list of errors is not
  empty, the message is the HTTP status code given to the decoder, a colon, a space
  and the message of the first record. The \<^verbatim>\<open>status\<close> fields of the records have no
  part in it: two such bodies whose records carry the same messages decode to the
  same error. The witness is the body with status 409 decoded under the code 500.
\<close>

theorem http_code_is_the_prefix:
  assumes "json_Unmarshal b = (r, None)" and "Errors r \<noteq> []"
  shows "getArtifactoryError b code = Some (ErrorString (fmt_d code @ '': '' @ Message (Errors r ! 0)))
       \<and> (\<forall>b' r'. json_Unmarshal b' = (r', None) \<and> map Message (Errors r') = map Message (Errors r)
            \<longrightarrow> getArtifactoryError b' code = getArtifactoryError b code)"
proof -
  have 1: "getArtifactoryError b code = Some (ErrorString (fmt_d code @ '': '' @ Message (Errors r ! 0)))"
    using assms by (simp add: getArtifactoryError_def)
  have 2: "getArtifactoryError b' code = getArtifactoryError b code"
    if "json_Unmarshal b' = (r', None)" and m: "map Message (Errors r') = map Message (Errors r)" for b' r'
  proof -
    from m assms(2) have ne: "Errors r' \<noteq> []" by auto
    from m have "map Message (Errors r') ! 0 = map Message (Errors r) ! 0" by simp
    with ne assms(2) have "Message (Errors r' ! 0) = Message (Errors r ! 0)"
      by simp
    with that(1) ne 1 show ?thesis by (simp add: getArtifactoryError_def)
  qed
  from 1 2 show ?thesis by blast
qed

theorem http_code_is_the_prefix_witness:
  \<open>json_Unmarshal ''{"errors":[{"status":409,"message":"m"}]}'' = (\<lparr>Errors = [\<lparr>Status = 409, Message = ''m''\<rparr>]\<rparr>, None)
   \<and> getArtifactoryError ''{"errors":[{"status":409,"message":"m"}]}'' 500 = Some (ErrorString ''500: m'')
   \<and> getArtifactoryError ''{"errors":[{"status":404,"message":"m"}]}'' 500
       = getArtifactoryError ''{"errors":[{"status":409,"message":"m"}]}'' 500\<close>
proof -
  have h: \<open>json_Unmarshal ''{"errors":[{"status":409,"message":"m"}]}''
             = (\<lparr>Errors = [\<lparr>Status = 409, Message = ''m''\<rparr>]\<rparr>, None)\<close>
    by code_simp
  have h': \<open>json_Unmarshal ''{"errors":[{"status":404,"message":"m"}]}''
             = (\<lparr>Errors = [\<lparr>Status = 404, Message = ''m''\<rparr>]\<rparr>, None)\<close>
    by code_simp
  have d: "fmt_d 500 = ''500''" by code_simp
  have ne: "Errors \<lparr>Errors = [\<lparr>Status = 409, Message = ''m''\<rparr>]\<rparr> \<noteq> []" by simp
  from http_code_is_the_prefix[OF h ne, of 500] h h' d show ?thesis by simp
qed

end
